theory Spec2Isabelle
  imports Complex_Main "HOL-Library.Word"
begin

section \<open>The double-pendulum task: tensors, configuration and state\<close>

text \<open>
  The environment of \<^verbatim>\<open>double_pendulum_env.py\<close> computes with batched tensors. A
  one-dimensional tensor is a list, a two-dimensional tensor of shape \<open>(N, J)\<close> is the
  list of its \<open>N\<close> rows. The \<^verbatim>\<open>float32\<close> entries are idealised as real numbers:
  rounding is outside this development, and so are the infinities and NaN that a float
  division by zero produces (the theorems that read a quotient assume a nonzero
  divisor). The \<^verbatim>\<open>int32\<close> stable counter is a 32-bit word, whose addition wraps
  around. An exception raised by the tensor library is a value of type \<open>error\<close>.
\<close>

type_synonym vec = "real list"
type_synonym mat = "real list list"

datatype error = IndexError | ShapeError

definition ebind :: "error + 'a \<Rightarrow> ('a \<Rightarrow> error + 'b) \<Rightarrow> error + 'b" where
  "ebind m f = (case m of Inl e \<Rightarrow> Inl e | Inr x \<Rightarrow> f x)"

record cfg =
  robot_type :: string
  action_spaces :: nat
  initial_shoulder_angle_range :: "real list"
  initial_elbow_angle_range :: "real list"
  torque_scale :: real
  goal_state :: "real list"
  reward_state_weights :: "real list"
  reward_action_weight :: real
  reward_scale :: real
  time_penalty :: real
  bonus_reward :: real
  max_velocity :: real
  success_threshold :: real
  sustain_steps :: int

text \<open>
  The class body of \<^verbatim>\<open>DoublePendulumEnvCfg\<close> runs once, with
  \<^verbatim>\<open>robot_type = "acrobot"\<close>: the \<^verbatim>\<open>if\<close> chain on \<^verbatim>\<open>robot_type\<close> sets
  \<^verbatim>\<open>action_spaces\<close> to 1 there, and the two are independent attributes afterwards.
\<close>

definition DoublePendulumEnvCfg :: cfg where
  "DoublePendulumEnvCfg =
     \<lparr> robot_type = ''acrobot'',
       action_spaces = 1,
       initial_shoulder_angle_range = [- 1, 1],
       initial_elbow_angle_range = [- 1, 1],
       torque_scale = 10,
       goal_state = [- pi, 0, 0, 0],
       reward_state_weights = [1, 2, 1 / 10, 1 / 10],
       reward_action_weight = 1 / 10,
       reward_scale = 1,
       time_penalty = 1 / 100,
       bonus_reward = 20,
       max_velocity = 5,
       success_threshold = 1 / 10,
       sustain_steps = 10 \<rparr>"

text \<open>
  The state of a \<^verbatim>\<open>DoublePendulumEnv\<close>. \<^verbatim>\<open>self.joint_pos\<close> and
  \<^verbatim>\<open>self.joint_vel\<close> are the tensors \<^verbatim>\<open>robot.data.joint_pos\<close> and
  \<^verbatim>\<open>robot.data.joint_vel\<close> themselves (the constructor stores the references), so one
  field stands for both names. \<^verbatim>\<open>shoulder_dof_idx\<close> and \<^verbatim>\<open>elbow_dof_idx\<close> are the
  single joint indices that \<^verbatim>\<open>find_joints\<close> returned for the two joint names.
\<close>

record env =
  joint_pos :: mat
  joint_vel :: mat
  default_joint_pos :: mat
  default_joint_vel :: mat
  stable_count :: "32 word list"
  actions :: mat
  shoulder_dof_idx :: nat
  elbow_dof_idx :: nat

section \<open>Tensor operations\<close>

text \<open>\<^verbatim>\<open>a % b\<close> on float tensors is the floored remainder \<^verbatim>\<open>a - b * floor(a / b)\<close>.\<close>

definition remainder :: "real \<Rightarrow> real \<Rightarrow> real" where
  "remainder a b = a - b * of_int \<lfloor>a / b\<rfloor>"

definition normalize_angle :: "real \<Rightarrow> real" where
  "normalize_angle angle = remainder (angle + pi) (2 * pi) - pi"

definition clamp :: "real \<Rightarrow> real \<Rightarrow> real \<Rightarrow> real" where
  "clamp x lo hi = min (max x lo) hi"

text \<open>\<^verbatim>\<open>t[:, j]\<close>: the column \<open>j\<close> of a two-dimensional tensor.\<close>

definition column :: "mat \<Rightarrow> nat \<Rightarrow> error + vec" where
  "column t j =
     (if list_all (\<lambda>row. j < length row) t then Inr (map (\<lambda>row. row ! j) t)
      else Inl IndexError)"

text \<open>\<^verbatim>\<open>torch.cat\<close> of four \<open>(N, 1)\<close> columns along the last dimension.\<close>

definition cat4 :: "vec \<Rightarrow> vec \<Rightarrow> vec \<Rightarrow> vec \<Rightarrow> error + mat" where
  "cat4 a b c d =
     (if length b = length a \<and> length c = length a \<and> length d = length a
      then Inr (map (\<lambda>i. [a ! i, b ! i, c ! i, d ! i]) [0..<length a])
      else Inl ShapeError)"

text \<open>
  An elementwise operation on two one-dimensional tensors: equal lengths, or one of
  them of length 1, which is broadcast.
\<close>

definition broadcast2 :: "('a \<Rightarrow> 'b \<Rightarrow> 'c) \<Rightarrow> 'a list \<Rightarrow> 'b list \<Rightarrow> error + 'c list" where
  "broadcast2 f xs ys =
     (if length xs = length ys then Inr (map2 f xs ys)
      else if length ys = 1 then Inr (map (\<lambda>x. f x (hd ys)) xs)
      else if length xs = 1 then Inr (map (\<lambda>y. f (hd xs) y) ys)
      else Inl ShapeError)"

text \<open>\<^verbatim>\<open>xs += ys\<close>: as above, but the left operand keeps its shape.\<close>

definition inplace_add :: "vec \<Rightarrow> vec \<Rightarrow> error + vec" where
  "inplace_add xs ys =
     (if length xs = length ys then Inr (map2 (+) xs ys)
      else if length ys = 1 then Inr (map (\<lambda>x. x + hd ys) xs)
      else Inl ShapeError)"

text \<open>
  \<^verbatim>\<open>state - goal\<close> for the observation batch \<open>state\<close> of shape \<open>(N, 4)\<close> and a
  one-dimensional \<open>goal\<close>, of length 4 or broadcast from length 1.
\<close>

definition sub_rows :: "mat \<Rightarrow> vec \<Rightarrow> error + mat" where
  "sub_rows state goal =
     (if length goal = 4 then Inr (map (\<lambda>row. map2 (-) row goal) state)
      else if length goal = 1 then Inr (map (\<lambda>row. map (\<lambda>x. x - hd goal) row) state)
      else Inl ShapeError)"

definition torch_diag :: "vec \<Rightarrow> mat" where
  "torch_diag w =
     map (\<lambda>i. map (\<lambda>j. if i = j then w ! i else 0) [0..<length w]) [0..<length w]"

text \<open>
  \<^verbatim>\<open>torch.einsum("bi, ij, bj->b", error, Q, error)\<close> for \<open>error\<close> of shape
  \<open>(N, 4)\<close>: the dimensions \<open>i\<close> and \<open>j\<close> of \<open>Q\<close> have size 4, or size 1 and are
  broadcast.
\<close>

definition einsum_bi_ij_bj :: "mat \<Rightarrow> mat \<Rightarrow> error + vec" where
  "einsum_bi_ij_bj e Q =
     (if length Q = 4
      then Inr (map (\<lambda>row. \<Sum>i\<leftarrow>[0..<4]. \<Sum>j\<leftarrow>[0..<4]. row ! i * (Q ! i ! j) * row ! j) e)
      else if length Q = 1
      then Inr (map (\<lambda>row. \<Sum>i\<leftarrow>[0..<4]. \<Sum>j\<leftarrow>[0..<4]. row ! i * (Q ! 0 ! 0) * row ! j) e)
      else Inl ShapeError)"

text \<open>\<^verbatim>\<open>torch.norm(t, dim=-1)\<close> of one row: the Euclidean norm.\<close>

definition torch_norm :: "vec \<Rightarrow> real" where
  "torch_norm row = sqrt (\<Sum>x\<leftarrow>row. x\<^sup>2)"

section \<open>Observations\<close>

definition get_observations :: "cfg \<Rightarrow> env \<Rightarrow> error + mat" where
  "get_observations c s =
     ebind (column (joint_pos s) (shoulder_dof_idx s)) (\<lambda>shoulder_pos.
     ebind (column (joint_pos s) (elbow_dof_idx s)) (\<lambda>elbow_pos.
     ebind (column (joint_vel s) (shoulder_dof_idx s)) (\<lambda>shoulder_raw.
     ebind (column (joint_vel s) (elbow_dof_idx s)) (\<lambda>elbow_raw.
       let shoulder_joint_pos = map normalize_angle shoulder_pos;
           elbow_joint_pos = map normalize_angle elbow_pos;
           shoulder_vel = map (\<lambda>v. v / max_velocity c) shoulder_raw;
           elbow_vel = map (\<lambda>v. v / max_velocity c) elbow_raw;
           shoulder_vel = map (\<lambda>v. clamp v (- 1) 1) shoulder_vel;
           elbow_vel = map (\<lambda>v. clamp v (- 1) 1) elbow_vel
       in cat4 shoulder_joint_pos elbow_joint_pos shoulder_vel elbow_vel))))"

section \<open>Rewards\<close>

text \<open>
  The goal tensor of \<^verbatim>\<open>_get_rewards\<close>: the configured goal with its first two entries
  replaced by their normalisation (\<^verbatim>\<open>goal_tensor[:2] = normalize_angle(goal_tensor[:2])\<close>).
\<close>

definition goal_tensor :: "cfg \<Rightarrow> vec" where
  "goal_tensor c = map normalize_angle (take 2 (goal_state c)) @ drop 2 (goal_state c)"

text \<open>The error of \<^verbatim>\<open>_get_rewards\<close>: \<^verbatim>\<open>error = state - goal_tensor\<close>.\<close>

definition rewards_error :: "cfg \<Rightarrow> env \<Rightarrow> error + mat" where
  "rewards_error c s =
     ebind (get_observations c s) (\<lambda>state. sub_rows state (goal_tensor c))"

text \<open>
  \<^verbatim>\<open>_get_rewards\<close> returns the reward batch; its one effect on the environment is the
  assignment to \<^verbatim>\<open>self._stable_count\<close>.
\<close>

definition get_rewards :: "cfg \<Rightarrow> env \<Rightarrow> error + (vec \<times> env)" where
  "get_rewards c s =
     ebind (get_observations c s) (\<lambda>state.
     ebind (sub_rows state (goal_tensor c)) (\<lambda>err.
     let Q = torch_diag (reward_state_weights c) in
     ebind (einsum_bi_ij_bj err Q) (\<lambda>state_cost.
     let action = actions s;
         action_cost = map (\<lambda>a. reward_action_weight c * (\<Sum>x\<leftarrow>a. x\<^sup>2)) action in
     ebind (broadcast2 (+) state_cost action_cost) (\<lambda>total_cost.
     let base_reward = map (\<lambda>t. - (reward_scale c * t) - time_penalty c) total_cost;
         error_norm = map torch_norm err in
     ebind (sub_rows state (goal_tensor c)) (\<lambda>diff.
     let bonus = map (\<lambda>d. if torch_norm d < success_threshold c then bonus_reward c else 0) diff;
         stable_condition = map (\<lambda>n. n < success_threshold c) error_norm in
     ebind (broadcast2 (\<lambda>b n. if b then n + 1 else 0) stable_condition (stable_count s))
       (\<lambda>stable_count'.
     let angle_dist = map (\<lambda>e. map abs (take 2 e)) err;
         angle_shaping = map (map (\<lambda>d. 1 - tanh d)) angle_dist in
     ebind (inplace_add base_reward (map (\<lambda>a. sum_list a * (1 / 100)) angle_shaping))
       (\<lambda>base_reward.
     ebind (broadcast2 (+) base_reward bonus) (\<lambda>reward.
       Inr (reward, s\<lparr>stable_count := stable_count'\<rparr>)))))))))"

section \<open>Termination\<close>

text \<open>The error of \<^verbatim>\<open>_get_dones\<close>: \<^verbatim>\<open>state - goal\<close>, with the goal as configured.\<close>

definition dones_error :: "cfg \<Rightarrow> env \<Rightarrow> error + mat" where
  "dones_error c s =
     ebind (get_observations c s) (\<lambda>state. sub_rows state (goal_state c))"

text \<open>
  \<^verbatim>\<open>episode_length_buf\<close> and \<^verbatim>\<open>max_episode_length\<close> belong to the framework's base
  class and are arguments here. The two assignments that open \<^verbatim>\<open>_get_dones\<close> store
  the references \<^verbatim>\<open>robot.data.joint_pos\<close> and \<^verbatim>\<open>robot.data.joint_vel\<close> again.
\<close>

definition get_dones :: "cfg \<Rightarrow> env \<Rightarrow> int list \<Rightarrow> int \<Rightarrow> error + (bool list \<times> bool list)" where
  "get_dones c s episode_length_buf max_episode_length =
     ebind (get_observations c s) (\<lambda>state.
     ebind (sub_rows state (goal_state c)) (\<lambda>diff.
     let error_norm = map torch_norm diff;
         success = map (\<lambda>n. n < success_threshold c) error_norm;
         sustained_stability = map (\<lambda>n. sustain_steps c \<le> sint n) (stable_count s);
         time_out = map (\<lambda>t. max_episode_length - 1 \<le> t) episode_length_buf;
         dones = time_out;
         time_outs = time_out
     in Inr (dones, time_outs)))"

section \<open>Reset\<close>

text \<open>\<^verbatim>\<open>t[env_ids]\<close>: the rows of \<open>t\<close> that the index tensor selects, as a copy.\<close>

definition index_select :: "'a list \<Rightarrow> nat list \<Rightarrow> error + 'a list" where
  "index_select t env_ids =
     (if list_all (\<lambda>i. i < length t) env_ids then Inr (map (\<lambda>i. t ! i) env_ids)
      else Inl IndexError)"

text \<open>
  One row of an indexed assignment: the value row replaces the old row when it has the
  old row's width, and is broadcast over that width when its own width is 1.
\<close>

definition put_row :: "vec \<Rightarrow> vec \<Rightarrow> vec" where
  "put_row old v = (if length v = length old then v else replicate (length old) (v ! 0))"

text \<open>
  \<^verbatim>\<open>t[env_ids] = vals\<close> on two-dimensional tensors: row \<open>env_ids[k]\<close> of \<open>t\<close>
  receives \<open>vals[k]\<close>. The value must be broadcastable to the shape
  \<open>(length env_ids, J)\<close> of the indexed rows: it has as many rows as there are indices,
  or one row, and its rows have the width \<open>J\<close> of the rows of \<open>t\<close>, or width 1;
  otherwise the assignment raises.
\<close>

definition index_put :: "mat \<Rightarrow> nat list \<Rightarrow> mat \<Rightarrow> error + mat" where
  "index_put t env_ids vals =
     (if list_all (\<lambda>i. i < length t) env_ids
      then (if (length vals = length env_ids \<or> length vals = 1) \<and>
               list_all (\<lambda>v. list_all (\<lambda>row. length v = length row \<or> length v = 1) t) vals
            then Inr (fold (\<lambda>k t. t[env_ids ! k :=
                              put_row (t ! (env_ids ! k))
                                (if length vals = 1 then vals ! 0 else vals ! k)])
                        [0..<length env_ids] t)
            else Inl ShapeError)
      else Inl IndexError)"

text \<open>\<^verbatim>\<open>t[env_ids] = v\<close> for a scalar \<open>v\<close>.\<close>

definition index_fill :: "'a list \<Rightarrow> nat list \<Rightarrow> 'a \<Rightarrow> error + 'a list" where
  "index_fill t env_ids v =
     (if list_all (\<lambda>i. i < length t) env_ids then Inr (fold (\<lambda>i t. t[i := v]) env_ids t)
      else Inl IndexError)"

text \<open>
  \<^verbatim>\<open>t[:, [j]] += sample\<close> for a sample of shape \<open>(M, 1)\<close>, given by its entries
  \<open>sample k\<close>.
\<close>

definition add_to_column :: "mat \<Rightarrow> nat \<Rightarrow> (nat \<Rightarrow> real) \<Rightarrow> error + mat" where
  "add_to_column t j sample =
     (if list_all (\<lambda>row. j < length row) t
      then Inr (map (\<lambda>k. (t ! k)[j := t ! k ! j + sample k]) [0..<length t])
      else Inl IndexError)"

text \<open>
  The framework's \<^verbatim>\<open>write_joint_state_to_sim(position, velocity, None, env_ids)\<close>
  stores the given rows in \<^verbatim>\<open>robot.data.joint_pos\<close> and \<^verbatim>\<open>robot.data.joint_vel\<close>
  at \<open>env_ids\<close>, the tensors that \<^verbatim>\<open>self.joint_pos\<close> and \<^verbatim>\<open>self.joint_vel\<close> name,
  and hands them to the physics engine, which is outside this model.
\<close>

definition write_joint_state_to_sim ::
    "mat \<Rightarrow> mat \<Rightarrow> nat list \<Rightarrow> env \<Rightarrow> error + env" where
  "write_joint_state_to_sim position velocity env_ids s =
     ebind (index_put (joint_pos s) env_ids position) (\<lambda>P.
     ebind (index_put (joint_vel s) env_ids velocity) (\<lambda>V.
       Inr (s\<lparr>joint_pos := P, joint_vel := V\<rparr>)))"

text \<open>
  \<^verbatim>\<open>_reset_idx\<close>. The two calls of \<^verbatim>\<open>sample_uniform\<close> draw from the framework's
  random generator; the values they return are the arguments \<open>shoulder_sample\<close> and
  \<open>elbow_sample\<close> (entry \<open>k\<close> for the \<open>k\<close>-th selected row). \<^verbatim>\<open>env_ids\<close> is an
  index tensor that the framework builds from the rows that are done; \<open>None\<close> stands
  for \<^verbatim>\<open>robot._ALL_INDICES\<close>. The parent's \<^verbatim>\<open>_reset_idx\<close> and the two writes of the
  root state act on the framework's own state, which the environment's tensors do not
  contain.
\<close>

definition reset_idx ::
    "cfg \<Rightarrow> (nat \<Rightarrow> real) \<Rightarrow> (nat \<Rightarrow> real) \<Rightarrow> nat list option \<Rightarrow> env \<Rightarrow> error + env" where
  "reset_idx c shoulder_sample elbow_sample env_ids_opt s =
     (let env_ids = (case env_ids_opt of None \<Rightarrow> [0..<length (joint_pos s)] | Some ids \<Rightarrow> ids) in
      ebind (index_select (default_joint_pos s) env_ids) (\<lambda>joint_pos0.
      if length (initial_shoulder_angle_range c) < 2 then Inl IndexError else
      ebind (add_to_column joint_pos0 (shoulder_dof_idx s) shoulder_sample) (\<lambda>joint_pos1.
      if length (initial_elbow_angle_range c) < 2 then Inl IndexError else
      ebind (add_to_column joint_pos1 (elbow_dof_idx s) elbow_sample) (\<lambda>joint_pos2.
      ebind (index_select (default_joint_vel s) env_ids) (\<lambda>joint_vel0.
      ebind (index_put (joint_pos s) env_ids joint_pos2) (\<lambda>P.
      ebind (index_put (joint_vel s) env_ids joint_vel0) (\<lambda>V.
      ebind (write_joint_state_to_sim joint_pos2 joint_vel0 env_ids
               (s\<lparr>joint_pos := P, joint_vel := V\<rparr>)) (\<lambda>s1.
      ebind (index_fill (stable_count s1) env_ids 0) (\<lambda>C.
        Inr (s1\<lparr>stable_count := C\<rparr>))))))))))"

section \<open>Actions\<close>

text \<open>
  The framework's \<^verbatim>\<open>set_joint_effort_target(target, joint_ids)\<close> is not part of this
  repository. It stores the target by the indexed assignment
  \<^verbatim>\<open>joint_effort_target[:, joint_ids] = target\<close>, with all joints when no
  \<^verbatim>\<open>joint_ids\<close> are given. The assignment follows the tensor library's rule: the
  target of shape \<open>(M, k)\<close> fills the slot of shape \<open>(N, length joint_ids)\<close> when each
  of its two dimensions has the slot's size or size 1, size 1 being broadcast, and
  raises otherwise.
\<close>

definition set_joint_effort_target :: "mat \<Rightarrow> nat list option \<Rightarrow> mat \<Rightarrow> error + mat" where
  "set_joint_effort_target target joint_ids_opt joint_effort_target =
     (let joint_ids = (case joint_ids_opt of
                         None \<Rightarrow> [0..<(if joint_effort_target = [] then 0
                                        else length (hd joint_effort_target))]
                       | Some ids \<Rightarrow> ids)
      in if list_all (\<lambda>row. list_all (\<lambda>j. j < length row) joint_ids) joint_effort_target
         then (if (length target = length joint_effort_target \<or> length target = 1) \<and>
                  list_all (\<lambda>row. length row = length joint_ids \<or> length row = 1) target
               then Inr (map (\<lambda>b.
                      let trow = (if length target = 1 then target ! 0 else target ! b)
                      in fold (\<lambda>k r. r[joint_ids ! k :=
                                         (if length trow = 1 then trow ! 0 else trow ! k)])
                           [0..<length joint_ids] (joint_effort_target ! b))
                      [0..<length joint_effort_target])
               else Inl ShapeError)
         else Inl IndexError)"

text \<open>
  \<^verbatim>\<open>_apply_action\<close>, as a function of the effort-target buffer. A \<^verbatim>\<open>robot_type\<close>
  that is none of the three names falls through the chain and leaves the buffer as it
  is.
\<close>

definition apply_action :: "cfg \<Rightarrow> env \<Rightarrow> mat \<Rightarrow> error + mat" where
  "apply_action c s joint_effort_target =
     (let torque = map (map (\<lambda>a. a * torque_scale c)) (actions s) in
      if robot_type c = ''acrobot''
      then set_joint_effort_target torque (Some [elbow_dof_idx s]) joint_effort_target
      else if robot_type c = ''pendubot''
      then set_joint_effort_target torque (Some [shoulder_dof_idx s]) joint_effort_target
      else if robot_type c = ''double_pendulum''
      then set_joint_effort_target torque None joint_effort_target
      else Inr joint_effort_target)"

section \<open>Shapes, rows and sample inputs\<close>

text \<open>
  The shape invariant of the joint tensors: as many velocity rows as position rows, and
  both joint indices inside every row.
\<close>

definition well_shaped :: "env \<Rightarrow> bool" where
  "well_shaped s \<longleftrightarrow>
     length (joint_vel s) = length (joint_pos s) \<and>
     list_all (\<lambda>row. shoulder_dof_idx s < length row \<and> elbow_dof_idx s < length row)
       (joint_pos s) \<and>
     list_all (\<lambda>row. shoulder_dof_idx s < length row \<and> elbow_dof_idx s < length row)
       (joint_vel s)"

text \<open>The observation of one row, from that row's joint positions and velocities.\<close>

definition obs_row :: "cfg \<Rightarrow> nat \<Rightarrow> nat \<Rightarrow> vec \<Rightarrow> vec \<Rightarrow> vec" where
  "obs_row c sh el p v =
     [normalize_angle (p ! sh), normalize_angle (p ! el),
      clamp (v ! sh / max_velocity c) (- 1) 1, clamp (v ! el / max_velocity c) (- 1) 1]"

abbreviation row_obs :: "cfg \<Rightarrow> env \<Rightarrow> nat \<Rightarrow> vec" where
  "row_obs c s i \<equiv>
     obs_row c (shoulder_dof_idx s) (elbow_dof_idx s) (joint_pos s ! i) (joint_vel s ! i)"

abbreviation row_error :: "cfg \<Rightarrow> env \<Rightarrow> nat \<Rightarrow> vec" where
  "row_error c s i \<equiv> map2 (-) (row_obs c s i) (goal_tensor c)"

text \<open>
  The reward of one row as a function of its error vector \<open>e\<close> and its action \<open>a\<close>,
  without the bonus and with it.
\<close>

definition base_reward_row :: "cfg \<Rightarrow> vec \<Rightarrow> vec \<Rightarrow> real" where
  "base_reward_row c e a =
     - (reward_scale c *
         ((reward_state_weights c ! 0 * (e ! 0)\<^sup>2 + reward_state_weights c ! 1 * (e ! 1)\<^sup>2
           + reward_state_weights c ! 2 * (e ! 2)\<^sup>2 + reward_state_weights c ! 3 * (e ! 3)\<^sup>2)
          + reward_action_weight c * (\<Sum>x\<leftarrow>a. x\<^sup>2)))
     - time_penalty c
     + ((1 - tanh \<bar>e ! 0\<bar>) + (1 - tanh \<bar>e ! 1\<bar>)) * (1 / 100)"

definition reward_row :: "cfg \<Rightarrow> vec \<Rightarrow> vec \<Rightarrow> real" where
  "reward_row c e a =
     base_reward_row c e a
     + (if torch_norm e < success_threshold c then bonus_reward c else 0)"

text \<open>
  The shape invariant of the whole batch, as the constructor and the framework set it
  up: the joint tensors and their defaults have the shape \<open>(N, J)\<close> for the number
  \<open>J\<close> of joints, the stable counter has \<open>N\<close> entries, and both joint indices are
  below \<open>J\<close>.
\<close>

definition num_joints :: "env \<Rightarrow> nat" where
  "num_joints s = (case joint_pos s of [] \<Rightarrow> 0 | row # _ \<Rightarrow> length row)"

definition batch_shaped :: "env \<Rightarrow> bool" where
  "batch_shaped s \<longleftrightarrow>
     length (joint_vel s) = length (joint_pos s) \<and>
     length (stable_count s) = length (joint_pos s) \<and>
     length (default_joint_pos s) = length (joint_pos s) \<and>
     length (default_joint_vel s) = length (joint_pos s) \<and>
     list_all (\<lambda>row. length row = num_joints s) (joint_pos s) \<and>
     list_all (\<lambda>row. length row = num_joints s) (joint_vel s) \<and>
     list_all (\<lambda>row. length row = num_joints s) (default_joint_pos s) \<and>
     list_all (\<lambda>row. length row = num_joints s) (default_joint_vel s) \<and>
     shoulder_dof_idx s < num_joints s \<and> elbow_dof_idx s < num_joints s"

text \<open>A one-row environment at the default goal, and a three-row one.\<close>

definition env_at_goal :: env where
  "env_at_goal =
     \<lparr> joint_pos = [[- pi, 0]], joint_vel = [[0, 0]],
       default_joint_pos = [[0, 0]], default_joint_vel = [[0, 0]],
       stable_count = [3], actions = [[0]],
       shoulder_dof_idx = 0, elbow_dof_idx = 1 \<rparr>"

definition env3 :: env where
  "env3 =
     \<lparr> joint_pos = [[- pi, 0], [1, 2], [0, 0]], joint_vel = [[0, 0], [7, - 9], [1, 0]],
       default_joint_pos = [[0, 0], [0, 0], [0, 0]],
       default_joint_vel = [[0, 0], [0, 0], [0, 0]],
       stable_count = [3, 5, 0], actions = [[0], [2], [1]],
       shoulder_dof_idx = 0, elbow_dof_idx = 1 \<rparr>"

section \<open>Basic facts\<close>

lemma ebind_Inr [simp]: "ebind (Inr x) f = f x"
  by (simp add: ebind_def)

lemma ebind_Inl [simp]: "ebind (Inl e) f = Inl e"
  by (simp add: ebind_def)

lemma ebind_eq_Inr: "ebind m f = Inr y \<longleftrightarrow> (\<exists>x. m = Inr x \<and> f x = Inr y)"
  by (cases m) simp_all

lemma remainder_bounds:
  assumes "0 < b"
  shows "0 \<le> remainder a b" and "remainder a b < b"
proof -
  have f1: "of_int \<lfloor>a / b\<rfloor> \<le> a / b" by (rule of_int_floor_le)
  have f2: "a / b < of_int \<lfloor>a / b\<rfloor> + 1" by linarith
  have "of_int \<lfloor>a / b\<rfloor> * b \<le> a"
    by (rule pos_le_divide_eq [OF assms, THEN iffD1, OF f1])
  then show "0 \<le> remainder a b" by (simp add: remainder_def mult.commute)
  have "a < (of_int \<lfloor>a / b\<rfloor> + 1) * b"
    by (rule pos_divide_less_eq [OF assms, THEN iffD1, OF f2])
  then show "remainder a b < b" by (simp add: remainder_def algebra_simps)
qed

lemma remainder_small:
  assumes "0 \<le> a" and "a < b"
  shows "remainder a b = a"
proof -
  from assms have "0 < b" by simp
  with assms have "0 \<le> a / b" and "a / b < 1" by simp_all
  then have "\<lfloor>a / b\<rfloor> = 0" by (simp add: floor_eq_iff)
  then show ?thesis by (simp add: remainder_def)
qed

lemma normalize_angle_range: "- pi \<le> normalize_angle x \<and> normalize_angle x < pi"
  using remainder_bounds [of "2 * pi" "x + pi"] by (simp add: normalize_angle_def)

lemma normalize_angle_fixed:
  assumes "- pi \<le> x" and "x < pi"
  shows "normalize_angle x = x"
  using assms by (simp add: normalize_angle_def remainder_small)

lemma normalize_angle_pi: "normalize_angle pi = - pi"
  by (simp add: normalize_angle_def remainder_def)

lemma normalize_angle_0: "normalize_angle 0 = 0"
  by (simp add: normalize_angle_fixed)

lemma normalize_angle_minus_pi: "normalize_angle (- pi) = - pi"
  by (simp add: normalize_angle_fixed)

lemma clamp_bounds: "- 1 \<le> clamp x (- 1) 1 \<and> clamp x (- 1) 1 \<le> 1"
  by (simp add: clamp_def)

lemma column_eq_Inr:
  "column t j = Inr v \<longleftrightarrow> list_all (\<lambda>row. j < length row) t \<and> v = map (\<lambda>row. row ! j) t"
  by (auto simp: column_def)

lemma cat4_eq_Inr:
  "cat4 a b c d = Inr m \<longleftrightarrow>
     length b = length a \<and> length c = length a \<and> length d = length a \<and>
     m = map (\<lambda>i. [a ! i, b ! i, c ! i, d ! i]) [0..<length a]"
  by (auto simp: cat4_def)

lemma get_observations_eq_Inr:
  "get_observations c s = Inr obs \<longleftrightarrow>
     well_shaped s \<and> obs = map (row_obs c s) [0..<length (joint_pos s)]"
  by (auto simp: get_observations_def ebind_eq_Inr column_eq_Inr cat4_eq_Inr well_shaped_def
      list_all_length Let_def obs_row_def)

lemma get_observations_shaped:
  "well_shaped s \<Longrightarrow> get_observations c s = Inr (map (row_obs c s) [0..<length (joint_pos s)])"
  by (simp add: get_observations_eq_Inr)

lemma length_obs_row [simp]: "length (obs_row c sh el p v) = 4"
  by (simp add: obs_row_def)

section \<open>Angle normalisation\<close>

text \<open>
  C3, as the code has it: normalising twice is normalising once, and every normalised
  angle lies in the half-open interval from \<open>-\<pi>\<close> (included) to \<open>\<pi>\<close> (excluded).
\<close>

theorem normalize_angle_idempotent_range:
  "normalize_angle (normalize_angle x) = normalize_angle x
   \<and> - pi \<le> normalize_angle x \<and> normalize_angle x < pi"
  using normalize_angle_range [of x] by (simp add: normalize_angle_fixed)

text \<open>
  C3 as stated fails at \<open>x = \<pi>\<close>: the normalised angle is \<open>-\<pi>\<close>, which the interval
  \<open>(-\<pi>, \<pi>]\<close> excludes.
\<close>

theorem normalize_angle_pi_outside: 
  "normalize_angle pi = - pi \<and> \<not> (- pi < normalize_angle pi \<and> normalize_angle pi \<le> pi)"
  by (simp add: normalize_angle_pi)

section \<open>Observations\<close>

text \<open>
  C7: both velocity entries of every observation row are the joint velocity divided by
  \<open>max_velocity\<close> and clamped, and lie between \<open>-1\<close> and \<open>1\<close>.
\<close>

theorem observation_velocities_clamped:
  assumes "well_shaped s" and "max_velocity c \<noteq> 0" and "i < length (joint_pos s)"
  shows "\<exists>obs. get_observations c s = Inr obs \<and> length obs = length (joint_pos s)
     \<and> length (obs ! i) = 4
     \<and> obs ! i ! 2 = clamp (joint_vel s ! i ! shoulder_dof_idx s / max_velocity c) (- 1) 1
     \<and> obs ! i ! 3 = clamp (joint_vel s ! i ! elbow_dof_idx s / max_velocity c) (- 1) 1
     \<and> - 1 \<le> obs ! i ! 2 \<and> obs ! i ! 2 \<le> 1 \<and> - 1 \<le> obs ! i ! 3 \<and> obs ! i ! 3 \<le> 1"
proof -
  have "get_observations c s = Inr (map (row_obs c s) [0..<length (joint_pos s)])"
    using assms(1) by (rule get_observations_shaped)
  moreover have "map (row_obs c s) [0..<length (joint_pos s)] ! i = row_obs c s i"
    using assms(3) by simp
  moreover have "row_obs c s i ! 2 = clamp (joint_vel s ! i ! shoulder_dof_idx s / max_velocity c) (- 1) 1"
    and "row_obs c s i ! 3 = clamp (joint_vel s ! i ! elbow_dof_idx s / max_velocity c) (- 1) 1"
    by (simp_all add: obs_row_def numeral_3_eq_3 numeral_2_eq_2)
  ultimately show ?thesis
    using clamp_bounds by simp
qed

theorem observation_velocities_clamped_witness:
  "well_shaped env3 \<and> max_velocity DoublePendulumEnvCfg \<noteq> 0 \<and> (1::nat) < length (joint_pos env3)
   \<and> (\<exists>obs. get_observations DoublePendulumEnvCfg env3 = Inr obs
        \<and> obs ! 1 ! 2 = 1 \<and> obs ! 1 ! 3 = - 1)"
proof -
  have h1: "well_shaped env3" by (simp add: well_shaped_def env3_def)
  have h2: "max_velocity DoublePendulumEnvCfg \<noteq> 0" by (simp add: DoublePendulumEnvCfg_def)
  have h3: "(1::nat) < length (joint_pos env3)" by (simp add: env3_def)
  have v: "joint_vel env3 ! 1 ! shoulder_dof_idx env3 / max_velocity DoublePendulumEnvCfg = 7 / 5"
    "joint_vel env3 ! 1 ! elbow_dof_idx env3 / max_velocity DoublePendulumEnvCfg = - 9 / 5"
    by (simp_all add: env3_def DoublePendulumEnvCfg_def)
  have cl: "clamp (7 / 5) (- 1) 1 = 1" "clamp (- 9 / 5) (- 1) 1 = - 1"
    by (simp_all add: clamp_def)
  from observation_velocities_clamped [OF h1 h2 h3] obtain obs
    where o: "get_observations DoublePendulumEnvCfg env3 = Inr obs"
      and o2: "obs ! 1 ! 2 = clamp (joint_vel env3 ! 1 ! shoulder_dof_idx env3 / max_velocity DoublePendulumEnvCfg) (- 1) 1"
      and o3: "obs ! 1 ! 3 = clamp (joint_vel env3 ! 1 ! elbow_dof_idx env3 / max_velocity DoublePendulumEnvCfg) (- 1) 1"
    by blast
  have "obs ! 1 ! 2 = 1" and "obs ! 1 ! 3 = - 1"
    by (simp_all only: o2 o3 v cl)
  with o h1 h2 h3 show ?thesis by blast
qed

section \<open>Rewards and termination on well-shaped inputs\<close>

lemma sint_succ_32:
  fixes w :: "32 word"
  assumes "sint w < 2 ^ 31 - 1"
  shows "sint (w + 1) = sint w + 1"
proof -
  have lo: "- (2 ^ 31) \<le> sint w" using sint_ge [of w] by simp
  have "sint (w + 1) = signed_take_bit 31 (sint w + 1)"
    by (simp add: sint_word_add)
  also have "\<dots> = sint w + 1"
    using lo assms by (intro signed_take_bit_int_eq_self) simp_all
  finally show ?thesis .
qed

lemma upt_4: "[0..<4] = [0, 1, 2, Suc 2]"
  by (simp add: upt_rec)

lemma length_goal_tensor [simp]: "length (goal_tensor c) = length (goal_state c)"
  by (simp add: goal_tensor_def)

lemma goal_tensor_4:
  assumes "length (goal_state c) = 4"
  shows "goal_tensor c = [normalize_angle (goal_state c ! 0), normalize_angle (goal_state c ! 1),
                          goal_state c ! 2, goal_state c ! 3]"
proof -
  from assms obtain a b d e where "goal_state c = [a, b, d, e]"
    by (auto simp: length_Suc_conv numeral_eq_Suc)
  then show ?thesis by (simp add: goal_tensor_def)
qed

lemma sub_rows_4:
  "length g = 4 \<Longrightarrow> sub_rows state g = Inr (map (\<lambda>row. map2 (-) row g) state)"
  by (simp add: sub_rows_def)

lemma torch_diag_nth:
  "i < length w \<Longrightarrow> j < length w \<Longrightarrow> torch_diag w ! i ! j = (if i = j then w ! i else 0)"
  by (simp add: torch_diag_def)

lemma einsum_diag_4:
  assumes "length w = 4"
  shows "einsum_bi_ij_bj e (torch_diag w) =
     Inr (map (\<lambda>row. w ! 0 * (row ! 0)\<^sup>2 + w ! 1 * (row ! 1)\<^sup>2
                    + w ! 2 * (row ! 2)\<^sup>2 + w ! 3 * (row ! 3)\<^sup>2) e)"
proof -
  have len: "length (torch_diag w) = 4" using assms by (simp add: torch_diag_def)
  have three: "Suc 2 = 3" by simp
  show ?thesis
    using assms
    by (simp add: einsum_bi_ij_bj_def len upt_4 torch_diag_nth power2_eq_square three algebra_simps)
qed

lemma take2_map2:
  "length row = 4 \<Longrightarrow> length g = 4 \<Longrightarrow>
   take 2 (map2 (-) row g) = [row ! 0 - g ! 0, row ! 1 - g ! 1]"
  by (cases row; cases g; simp; cases "tl row"; cases "tl g"; simp)

text \<open>
  The whole of \<^verbatim>\<open>_get_rewards\<close> on well-shaped inputs, row by row: the reward of row
  \<open>i\<close> and its new stable counter are functions of that row's error and action.
\<close>

lemma get_rewards_shaped:
  assumes ws: "well_shaped s"
    and g: "length (goal_state c) = 4"
    and w: "length (reward_state_weights c) = 4"
    and a: "length (actions s) = length (joint_pos s)"
    and sc: "length (stable_count s) = length (joint_pos s)"
  shows "get_rewards c s =
     Inr (map (\<lambda>i. reward_row c (row_error c s i) (actions s ! i)) [0..<length (joint_pos s)],
          s\<lparr>stable_count :=
             map (\<lambda>i. if torch_norm (row_error c s i) < success_threshold c
                       then stable_count s ! i + 1 else 0)
               [0..<length (joint_pos s)]\<rparr>)"
proof -
  let ?N = "length (joint_pos s)"
  let ?err = "map (\<lambda>row. map2 (-) row (goal_tensor c)) (map (row_obs c s) [0..<?N])"
  have gt: "length (goal_tensor c) = 4" using g by simp
  have t2: "\<And>i. take 2 (row_error c s i) = [row_obs c s i ! 0 - goal_tensor c ! 0, row_obs c s i ! 1 - goal_tensor c ! 1]"
    by (rule take2_map2) (simp_all add: g)
  have R: "get_rewards c s = Inr
     (map2 (+)
        (map2 (+)
          (map (\<lambda>t. - (reward_scale c * t) - time_penalty c)
            (map2 (+)
               (map (\<lambda>row. reward_state_weights c ! 0 * (row ! 0)\<^sup>2 + reward_state_weights c ! 1 * (row ! 1)\<^sup>2
                    + reward_state_weights c ! 2 * (row ! 2)\<^sup>2 + reward_state_weights c ! 3 * (row ! 3)\<^sup>2) ?err)
               (map (\<lambda>a. reward_action_weight c * (\<Sum>x\<leftarrow>a. x\<^sup>2)) (actions s))))
          (map (\<lambda>a. sum_list a * (1 / 100))
             (map (map (\<lambda>d. 1 - tanh d)) (map (\<lambda>e. map abs (take 2 e)) ?err))))
        (map (\<lambda>d. if torch_norm d < success_threshold c then bonus_reward c else 0) ?err),
      s\<lparr>stable_count :=
          map2 (\<lambda>b n. if b then n + 1 else 0)
            (map (\<lambda>n. n < success_threshold c) (map torch_norm ?err))
            (stable_count s)\<rparr>)"
    unfolding get_rewards_def Let_def
    by (simp add: get_observations_shaped [OF ws] sub_rows_4 [OF gt] einsum_diag_4 [OF w]
        broadcast2_def inplace_add_def a sc comp_def)
  have L: "map2 (+)
        (map2 (+)
          (map (\<lambda>t. - (reward_scale c * t) - time_penalty c)
            (map2 (+)
               (map (\<lambda>row. reward_state_weights c ! 0 * (row ! 0)\<^sup>2 + reward_state_weights c ! 1 * (row ! 1)\<^sup>2
                    + reward_state_weights c ! 2 * (row ! 2)\<^sup>2 + reward_state_weights c ! 3 * (row ! 3)\<^sup>2) ?err)
               (map (\<lambda>a. reward_action_weight c * (\<Sum>x\<leftarrow>a. x\<^sup>2)) (actions s))))
          (map (\<lambda>a. sum_list a * (1 / 100))
             (map (map (\<lambda>d. 1 - tanh d)) (map (\<lambda>e. map abs (take 2 e)) ?err))))
        (map (\<lambda>d. if torch_norm d < success_threshold c then bonus_reward c else 0) ?err)
     = map (\<lambda>i. reward_row c (row_error c s i) (actions s ! i)) [0..<?N]"
    by (rule nth_equalityI) (simp_all add: a g reward_row_def base_reward_row_def t2)
  have S: "map2 (\<lambda>b n. if b then n + 1 else 0)
            (map (\<lambda>n. n < success_threshold c) (map torch_norm ?err))
            (stable_count s)
     = map (\<lambda>i. if torch_norm (row_error c s i) < success_threshold c
                       then stable_count s ! i + 1 else 0) [0..<?N]"
    by (rule nth_equalityI) (simp_all add: sc)
  show ?thesis unfolding R L S ..
qed

lemma rewards_error_shaped:
  assumes "well_shaped s" and "length (goal_state c) = 4"
  shows "rewards_error c s = Inr (map (row_error c s) [0..<length (joint_pos s)])"
  using assms by (simp add: rewards_error_def get_observations_shaped sub_rows_4)

lemma dones_error_shaped:
  assumes "well_shaped s" and "length (goal_state c) = 4"
  shows "dones_error c s
     = Inr (map (\<lambda>i. map2 (-) (row_obs c s i) (goal_state c)) [0..<length (joint_pos s)])"
  using assms by (simp add: dones_error_def get_observations_shaped sub_rows_4)

lemma get_dones_via_error:
  "get_dones c s buf m =
     ebind (dones_error c s) (\<lambda>diff. Inr (map (\<lambda>t. m - 1 \<le> t) buf, map (\<lambda>t. m - 1 \<le> t) buf))"
  by (cases "get_observations c s") (simp_all add: get_dones_def dones_error_def Let_def)

lemma get_dones_shaped:
  assumes "well_shaped s" and "length (goal_state c) = 4"
  shows "get_dones c s buf m = Inr (map (\<lambda>t. m - 1 \<le> t) buf, map (\<lambda>t. m - 1 \<le> t) buf)"
  using assms by (simp add: get_dones_via_error dones_error_shaped)

section \<open>Sample inputs\<close>

lemma well_shaped_env_at_goal: "well_shaped env_at_goal"
  by (simp add: well_shaped_def env_at_goal_def)

lemma goal_tensor_default: "goal_tensor DoublePendulumEnvCfg = [- pi, 0, 0, 0]"
  by (simp add: goal_tensor_def DoublePendulumEnvCfg_def normalize_angle_minus_pi normalize_angle_0)

lemma row_obs_env_at_goal: "row_obs c env_at_goal 0 = [- pi, 0, 0, 0]"
  by (simp add: obs_row_def env_at_goal_def normalize_angle_minus_pi normalize_angle_0 clamp_def)

lemma torch_norm_zero: "torch_norm [0, 0, 0, 0] = 0"
  by (simp add: torch_norm_def)

section \<open>The goal in the reward and in the termination\<close>

text \<open>
  C1, as the code has it: in \<^verbatim>\<open>_get_rewards\<close> the first two entries of the goal are
  normalised, into the interval from \<open>-\<pi>\<close> (included) to \<open>\<pi>\<close> (excluded), the error
  is the observation minus this goal tensor, and the reward and the stable counter of
  every row are computed from that error.
\<close>

theorem rewards_error_normalized_goal:
  assumes "well_shaped s" and "length (goal_state c) = 4"
    and "length (reward_state_weights c) = 4"
    and "length (actions s) = length (joint_pos s)"
    and "length (stable_count s) = length (joint_pos s)"
  shows "goal_tensor c = [normalize_angle (goal_state c ! 0), normalize_angle (goal_state c ! 1),
                          goal_state c ! 2, goal_state c ! 3]
     \<and> - pi \<le> goal_tensor c ! 0 \<and> goal_tensor c ! 0 < pi
     \<and> - pi \<le> goal_tensor c ! 1 \<and> goal_tensor c ! 1 < pi
     \<and> (\<exists>state err. get_observations c s = Inr state
          \<and> rewards_error c s = Inr err
          \<and> err = map (\<lambda>row. map2 (-) row (goal_tensor c)) state
          \<and> get_rewards c s =
              Inr (map (\<lambda>i. reward_row c (err ! i) (actions s ! i)) [0..<length (joint_pos s)],
                   s\<lparr>stable_count :=
                       map (\<lambda>i. if torch_norm (err ! i) < success_threshold c
                                 then stable_count s ! i + 1 else 0)
                         [0..<length (joint_pos s)]\<rparr>))"
proof -
  let ?state = "map (row_obs c s) [0..<length (joint_pos s)]"
  let ?err = "map (\<lambda>row. map2 (-) row (goal_tensor c)) ?state"
  have gt: "goal_tensor c = [normalize_angle (goal_state c ! 0), normalize_angle (goal_state c ! 1),
                          goal_state c ! 2, goal_state c ! 3]"
    using assms(2) by (rule goal_tensor_4)
  have r0: "- pi \<le> goal_tensor c ! 0 \<and> goal_tensor c ! 0 < pi"
    using normalize_angle_range [of "goal_state c ! 0"] by (simp add: gt)
  have r1: "- pi \<le> goal_tensor c ! 1 \<and> goal_tensor c ! 1 < pi"
    using normalize_angle_range [of "goal_state c ! 1"] by (simp add: gt)
  have o: "get_observations c s = Inr ?state"
    using assms(1) by (rule get_observations_shaped)
  have e: "rewards_error c s = Inr ?err"
    using assms(1,2) by (simp add: rewards_error_shaped comp_def)
  have m1: "map (\<lambda>i. reward_row c (?err ! i) (actions s ! i)) [0..<length (joint_pos s)]
      = map (\<lambda>i. reward_row c (row_error c s i) (actions s ! i)) [0..<length (joint_pos s)]"
    by (rule map_cong) simp_all
  have m2: "map (\<lambda>i. if torch_norm (?err ! i) < success_threshold c
                                 then stable_count s ! i + 1 else 0) [0..<length (joint_pos s)]
      = map (\<lambda>i. if torch_norm (row_error c s i) < success_threshold c
                                 then stable_count s ! i + 1 else 0) [0..<length (joint_pos s)]"
    by (rule map_cong) simp_all
  have r: "get_rewards c s =
              Inr (map (\<lambda>i. reward_row c (?err ! i) (actions s ! i)) [0..<length (joint_pos s)],
                   s\<lparr>stable_count :=
                       map (\<lambda>i. if torch_norm (?err ! i) < success_threshold c
                                 then stable_count s ! i + 1 else 0)
                         [0..<length (joint_pos s)]\<rparr>)"
    unfolding m1 m2 using assms by (rule get_rewards_shaped)
  from o e r have "\<exists>state err. get_observations c s = Inr state
          \<and> rewards_error c s = Inr err
          \<and> err = map (\<lambda>row. map2 (-) row (goal_tensor c)) state
          \<and> get_rewards c s =
              Inr (map (\<lambda>i. reward_row c (err ! i) (actions s ! i)) [0..<length (joint_pos s)],
                   s\<lparr>stable_count :=
                       map (\<lambda>i. if torch_norm (err ! i) < success_threshold c
                                 then stable_count s ! i + 1 else 0)
                         [0..<length (joint_pos s)]\<rparr>)"
    by blast
  with gt r0 r1 show ?thesis by blast
qed

theorem rewards_error_normalized_goal_witness:
  "well_shaped env_at_goal \<and> length (goal_state DoublePendulumEnvCfg) = 4
   \<and> length (reward_state_weights DoublePendulumEnvCfg) = 4
   \<and> length (actions env_at_goal) = length (joint_pos env_at_goal)
   \<and> length (stable_count env_at_goal) = length (joint_pos env_at_goal)
   \<and> goal_tensor DoublePendulumEnvCfg = [- pi, 0, 0, 0]
   \<and> rewards_error DoublePendulumEnvCfg env_at_goal = Inr [[0, 0, 0, 0]]"
proof -
  have h1: "well_shaped env_at_goal" by (rule well_shaped_env_at_goal)
  have h2: "length (goal_state DoublePendulumEnvCfg) = 4" by (simp add: DoublePendulumEnvCfg_def)
  have h3: "length (reward_state_weights DoublePendulumEnvCfg) = 4"
    by (simp add: DoublePendulumEnvCfg_def)
  have h4: "length (actions env_at_goal) = length (joint_pos env_at_goal)"
    by (simp add: env_at_goal_def)
  have h5: "length (stable_count env_at_goal) = length (joint_pos env_at_goal)"
    by (simp add: env_at_goal_def)
  from rewards_error_normalized_goal [OF h1 h2 h3 h4 h5] obtain state err
    where o: "get_observations DoublePendulumEnvCfg env_at_goal = Inr state"
      and e: "rewards_error DoublePendulumEnvCfg env_at_goal = Inr err"
      and d: "err = map (\<lambda>row. map2 (-) row (goal_tensor DoublePendulumEnvCfg)) state"
    by blast
  have "get_observations DoublePendulumEnvCfg env_at_goal = Inr [[- pi, 0, 0, 0]]"
    using get_observations_shaped [OF h1, of DoublePendulumEnvCfg] row_obs_env_at_goal
    by (simp add: env_at_goal_def)
  with o have "state = [[- pi, 0, 0, 0]]" by simp
  with d have "err = [[0, 0, 0, 0]]" by (simp add: goal_tensor_default)
  with e h1 h2 h3 h4 h5 show ?thesis by (simp add: goal_tensor_default)
qed

text \<open>
  C1 as stated fails for the goal \<open>[\<pi>, 0, 0, 0]\<close>: the normalised goal angle is
  \<open>-\<pi>\<close>, outside \<open>(-\<pi>, \<pi>]\<close>, and \<^verbatim>\<open>_get_dones\<close> subtracts the goal as configured,
  so that at the observation \<open>[-\<pi>, 0, 0, 0]\<close> its error is \<open>[-2\<pi>, 0, 0, 0]\<close> where
  the error of \<^verbatim>\<open>_get_rewards\<close> is zero.
\<close>

theorem dones_error_raw_goal:
  "goal_tensor (DoublePendulumEnvCfg\<lparr>goal_state := [pi, 0, 0, 0]\<rparr>) = [- pi, 0, 0, 0]
   \<and> \<not> (- pi < goal_tensor (DoublePendulumEnvCfg\<lparr>goal_state := [pi, 0, 0, 0]\<rparr>) ! 0)
   \<and> get_observations (DoublePendulumEnvCfg\<lparr>goal_state := [pi, 0, 0, 0]\<rparr>) env_at_goal
       = Inr [[- pi, 0, 0, 0]]
   \<and> rewards_error (DoublePendulumEnvCfg\<lparr>goal_state := [pi, 0, 0, 0]\<rparr>) env_at_goal
       = Inr [[0, 0, 0, 0]]
   \<and> dones_error (DoublePendulumEnvCfg\<lparr>goal_state := [pi, 0, 0, 0]\<rparr>) env_at_goal
       = Inr [[- (2 * pi), 0, 0, 0]]"
proof -
  let ?c = "DoublePendulumEnvCfg\<lparr>goal_state := [pi, 0, 0, 0]\<rparr>"
  have gt: "goal_tensor ?c = [- pi, 0, 0, 0]"
    by (simp add: goal_tensor_def normalize_angle_pi normalize_angle_0)
  have o: "get_observations ?c env_at_goal = Inr [[- pi, 0, 0, 0]]"
    using get_observations_shaped [OF well_shaped_env_at_goal, of ?c] row_obs_env_at_goal
    by (simp add: env_at_goal_def)
  have r: "rewards_error ?c env_at_goal = Inr [[0, 0, 0, 0]]"
    by (simp add: rewards_error_def o gt sub_rows_def)
  have d: "dones_error ?c env_at_goal = Inr [[- (2 * pi), 0, 0, 0]]"
    by (simp add: dones_error_def o sub_rows_def)
  from gt o r d show ?thesis by simp
qed

section \<open>Termination\<close>

text \<open>
  C2: \<^verbatim>\<open>_get_dones\<close> returns the time-out batch twice; row \<open>i\<close> is done exactly when
  its elapsed steps have reached \<open>max_episode_length - 1\<close>. The success threshold, the
  sustain steps and the stable counters, from which \<open>success\<close> and
  \<open>sustained_stability\<close> are computed, do not change the result.
\<close>

theorem dones_are_time_outs:
  assumes "well_shaped s" and "length (goal_state c) = 4"
  shows "\<exists>dones time_outs.
      get_dones c s episode_length_buf max_episode_length = Inr (dones, time_outs)
      \<and> dones = time_outs \<and> length time_outs = length episode_length_buf
      \<and> (\<forall>i<length episode_length_buf.
            time_outs ! i = (max_episode_length - 1 \<le> episode_length_buf ! i))
      \<and> get_dones (c\<lparr>success_threshold := th, sustain_steps := k\<rparr>) (s\<lparr>stable_count := n\<rparr>)
            episode_length_buf max_episode_length = Inr (dones, time_outs)"
proof -
  let ?t = "map (\<lambda>t. max_episode_length - 1 \<le> t) episode_length_buf"
  have a: "get_dones c s episode_length_buf max_episode_length = Inr (?t, ?t)"
    using assms by (rule get_dones_shaped)
  have "well_shaped (s\<lparr>stable_count := n\<rparr>)"
    using assms(1) by (simp add: well_shaped_def)
  moreover have "length (goal_state (c\<lparr>success_threshold := th, sustain_steps := k\<rparr>)) = 4"
    using assms(2) by simp
  ultimately have b: "get_dones (c\<lparr>success_threshold := th, sustain_steps := k\<rparr>)
      (s\<lparr>stable_count := n\<rparr>) episode_length_buf max_episode_length = Inr (?t, ?t)"
    by (rule get_dones_shaped)
  from a b show ?thesis by simp
qed

theorem dones_are_time_outs_witness:
  "well_shaped env3 \<and> length (goal_state DoublePendulumEnvCfg) = 4
   \<and> get_dones DoublePendulumEnvCfg env3 [0, 899, 900] 900 = Inr ([False, True, True], [False, True, True])"
proof -
  have h1: "well_shaped env3" by (simp add: well_shaped_def env3_def)
  have h2: "length (goal_state DoublePendulumEnvCfg) = 4" by (simp add: DoublePendulumEnvCfg_def)
  from dones_are_time_outs [OF h1 h2, of "[0, 899, 900]" 900] obtain dones time_outs
    where d: "get_dones DoublePendulumEnvCfg env3 [0, 899, 900] 900 = Inr (dones, time_outs)"
      and e: "dones = time_outs" and l: "length time_outs = length [0, 899, 900 :: int]"
      and t: "\<forall>i<length [0, 899, 900 :: int]. time_outs ! i = ((900::int) - 1 \<le> [0, 899, 900] ! i)"
    by blast
  from t have "time_outs ! 0 = False" "time_outs ! 1 = True" "time_outs ! 2 = True"
    by simp_all
  with l have "time_outs = [False, True, True]"
    by (auto simp: length_Suc_conv numeral_eq_Suc)
  with d e h1 h2 show ?thesis by simp
qed

lemma shaped_env_at_goal:
  "length (goal_state DoublePendulumEnvCfg) = 4"
  "length (reward_state_weights DoublePendulumEnvCfg) = 4"
  "length (actions env_at_goal) = length (joint_pos env_at_goal)"
  "length (stable_count env_at_goal) = length (joint_pos env_at_goal)"
  "(0::nat) < length (joint_pos env_at_goal)"
  by (simp_all add: DoublePendulumEnvCfg_def env_at_goal_def)

lemma row_error_env_at_goal: "row_error DoublePendulumEnvCfg env_at_goal 0 = [0, 0, 0, 0]"
  by (simp add: row_obs_env_at_goal goal_tensor_default)

section \<open>The stable counter\<close>

text \<open>
  C4: one call of \<^verbatim>\<open>_get_rewards\<close> replaces the stable counter of row \<open>i\<close> by its
  successor when the norm of that row's error is below the success threshold, and by 0
  otherwise. The error of row \<open>i\<close> is built from the joint positions and velocities of
  row \<open>i\<close> alone. The counter is an \<^verbatim>\<open>int32\<close>: below its largest value the successor is
  the counter plus one as an integer. Nothing else of the environment changes.
\<close>

theorem stable_count_step:
  assumes "well_shaped s" and "length (goal_state c) = 4"
    and "length (reward_state_weights c) = 4"
    and "length (actions s) = length (joint_pos s)"
    and "length (stable_count s) = length (joint_pos s)"
    and "i < length (joint_pos s)"
  shows "\<exists>reward s'. get_rewards c s = Inr (reward, s')
     \<and> length (stable_count s') = length (stable_count s)
     \<and> stable_count s' ! i =
         (if torch_norm (map2 (-) (obs_row c (shoulder_dof_idx s) (elbow_dof_idx s)
                                     (joint_pos s ! i) (joint_vel s ! i)) (goal_tensor c))
             < success_threshold c
          then stable_count s ! i + 1 else 0)
     \<and> (torch_norm (row_error c s i) < success_threshold c \<and> sint (stable_count s ! i) < 2 ^ 31 - 1
          \<longrightarrow> sint (stable_count s' ! i) = sint (stable_count s ! i) + 1)
     \<and> s' = s\<lparr>stable_count := stable_count s'\<rparr>"
proof -
  let ?sc = "map (\<lambda>i. if torch_norm (row_error c s i) < success_threshold c
                       then stable_count s ! i + 1 else 0) [0..<length (joint_pos s)]"
  let ?r = "map (\<lambda>i. reward_row c (row_error c s i) (actions s ! i)) [0..<length (joint_pos s)]"
  have r: "get_rewards c s = Inr (?r, s\<lparr>stable_count := ?sc\<rparr>)"
    using assms(1-5) by (rule get_rewards_shaped)
  have n: "?sc ! i = (if torch_norm (row_error c s i) < success_threshold c
                       then stable_count s ! i + 1 else 0)"
    using assms(6) by simp
  have l: "length ?sc = length (stable_count s)"
    using assms(5) by simp
  have si: "torch_norm (row_error c s i) < success_threshold c \<and> sint (stable_count s ! i) < 2 ^ 31 - 1
          \<longrightarrow> sint (?sc ! i) = sint (stable_count s ! i) + 1"
    unfolding n by (simp add: sint_succ_32)
  show ?thesis
    apply (rule exI [of _ ?r])
    apply (rule exI [of _ "s\<lparr>stable_count := ?sc\<rparr>"])
    using r n l si by simp
qed

theorem stable_count_step_witness:
  "well_shaped env_at_goal \<and> length (goal_state DoublePendulumEnvCfg) = 4
   \<and> length (reward_state_weights DoublePendulumEnvCfg) = 4
   \<and> length (actions env_at_goal) = length (joint_pos env_at_goal)
   \<and> length (stable_count env_at_goal) = length (joint_pos env_at_goal)
   \<and> (0::nat) < length (joint_pos env_at_goal)
   \<and> stable_count env_at_goal = [3]
   \<and> (\<exists>reward s'. get_rewards DoublePendulumEnvCfg env_at_goal = Inr (reward, s')
         \<and> stable_count s' = [4])"
proof -
  note h = well_shaped_env_at_goal shaped_env_at_goal
  from stable_count_step [OF h] obtain reward s'
    where r: "get_rewards DoublePendulumEnvCfg env_at_goal = Inr (reward, s')"
      and l: "length (stable_count s') = length (stable_count env_at_goal)"
      and n: "stable_count s' ! 0 =
         (if torch_norm (row_error DoublePendulumEnvCfg env_at_goal 0)
             < success_threshold DoublePendulumEnvCfg
          then stable_count env_at_goal ! 0 + 1 else 0)"
    by blast
  have sc: "stable_count env_at_goal = [3]" by (simp add: env_at_goal_def)
  have "stable_count s' ! 0 = 4"
    unfolding n row_error_env_at_goal torch_norm_zero
    by (simp add: sc DoublePendulumEnvCfg_def)
  moreover have "length (stable_count s') = 1" using l by (simp add: sc)
  ultimately have "stable_count s' = [4]"
    by (cases "stable_count s'") simp_all
  with r sc h show ?thesis by blast
qed

section \<open>Bonus and stable counter\<close>

text \<open>
  C10: in one call of \<^verbatim>\<open>_get_rewards\<close> the bonus and the stable counter of a row
  take the same branch: either the norm of the row's error is below the threshold, the
  reward is the base reward plus \<open>bonus_reward\<close> and the counter is incremented, or it
  is not, the reward is the base reward and the counter is 0.
\<close>

theorem bonus_agrees_with_stable_count:
  assumes "well_shaped s" and "length (goal_state c) = 4"
    and "length (reward_state_weights c) = 4"
    and "length (actions s) = length (joint_pos s)"
    and "length (stable_count s) = length (joint_pos s)"
    and "i < length (joint_pos s)"
  shows "\<exists>reward s'. get_rewards c s = Inr (reward, s')
     \<and> ((torch_norm (row_error c s i) < success_threshold c
          \<and> reward ! i = base_reward_row c (row_error c s i) (actions s ! i) + bonus_reward c
          \<and> stable_count s' ! i = stable_count s ! i + 1)
        \<or> (success_threshold c \<le> torch_norm (row_error c s i)
          \<and> reward ! i = base_reward_row c (row_error c s i) (actions s ! i)
          \<and> stable_count s' ! i = 0))"
proof -
  let ?sc = "map (\<lambda>i. if torch_norm (row_error c s i) < success_threshold c
                       then stable_count s ! i + 1 else 0) [0..<length (joint_pos s)]"
  let ?r = "map (\<lambda>i. reward_row c (row_error c s i) (actions s ! i)) [0..<length (joint_pos s)]"
  have r: "get_rewards c s = Inr (?r, s\<lparr>stable_count := ?sc\<rparr>)"
    using assms(1-5) by (rule get_rewards_shaped)
  have n: "?sc ! i = (if torch_norm (row_error c s i) < success_threshold c
                       then stable_count s ! i + 1 else 0)"
    using assms(6) by simp
  have m: "?r ! i = reward_row c (row_error c s i) (actions s ! i)"
    using assms(6) by simp
  show ?thesis
    apply (rule exI [of _ ?r])
    apply (rule exI [of _ "s\<lparr>stable_count := ?sc\<rparr>"])
    unfolding r using n m by (simp add: reward_row_def not_less)
qed

theorem bonus_agrees_with_stable_count_witness:
  "well_shaped env_at_goal \<and> length (goal_state DoublePendulumEnvCfg) = 4
   \<and> length (reward_state_weights DoublePendulumEnvCfg) = 4
   \<and> length (actions env_at_goal) = length (joint_pos env_at_goal)
   \<and> length (stable_count env_at_goal) = length (joint_pos env_at_goal)
   \<and> (0::nat) < length (joint_pos env_at_goal)
   \<and> (\<exists>reward s'. get_rewards DoublePendulumEnvCfg env_at_goal = Inr (reward, s')
         \<and> reward ! 0 = base_reward_row DoublePendulumEnvCfg [0, 0, 0, 0] [0] + 20
         \<and> stable_count s' ! 0 = 4)"
proof -
  note h = well_shaped_env_at_goal shaped_env_at_goal
  have below: "torch_norm (row_error DoublePendulumEnvCfg env_at_goal 0)
      < success_threshold DoublePendulumEnvCfg"
    unfolding row_error_env_at_goal torch_norm_zero by (simp add: DoublePendulumEnvCfg_def)
  from bonus_agrees_with_stable_count [OF h] below obtain reward s'
    where r: "get_rewards DoublePendulumEnvCfg env_at_goal = Inr (reward, s')"
      and b: "reward ! 0 = base_reward_row DoublePendulumEnvCfg
                (row_error DoublePendulumEnvCfg env_at_goal 0) (actions env_at_goal ! 0)
              + bonus_reward DoublePendulumEnvCfg"
      and n: "stable_count s' ! 0 = stable_count env_at_goal ! 0 + 1"
    by auto
  have "reward ! 0 = base_reward_row DoublePendulumEnvCfg [0, 0, 0, 0] [0] + 20"
    unfolding b row_error_env_at_goal by (simp add: env_at_goal_def DoublePendulumEnvCfg_def)
  moreover have "stable_count s' ! 0 = 4"
    unfolding n by (simp add: env_at_goal_def)
  ultimately show ?thesis using r h by blast
qed

lemma default_cfg_fields:
  "goal_state DoublePendulumEnvCfg = [- pi, 0, 0, 0]"
  "reward_state_weights DoublePendulumEnvCfg = [1, 2, 1 / 10, 1 / 10]"
  "reward_action_weight DoublePendulumEnvCfg = 1 / 10"
  "reward_scale DoublePendulumEnvCfg = 1"
  "time_penalty DoublePendulumEnvCfg = 1 / 100"
  "bonus_reward DoublePendulumEnvCfg = 20"
  "max_velocity DoublePendulumEnvCfg = 5"
  "success_threshold DoublePendulumEnvCfg = 1 / 10"
  "torque_scale DoublePendulumEnvCfg = 10"
  "robot_type DoublePendulumEnvCfg = ''acrobot''"
  "action_spaces DoublePendulumEnvCfg = 1"
  by (simp_all add: DoublePendulumEnvCfg_def)

lemma env_at_goal_fields:
  "joint_pos env_at_goal = [[- pi, 0]]"
  "joint_vel env_at_goal = [[0, 0]]"
  "stable_count env_at_goal = [3]"
  "actions env_at_goal = [[0]]"
  "shoulder_dof_idx env_at_goal = 0"
  "elbow_dof_idx env_at_goal = 1"
  by (simp_all add: env_at_goal_def)

section \<open>The reward at the goal\<close>

lemma sum_list_squares_zero: "list_all (\<lambda>x. x = 0) a \<Longrightarrow> (\<Sum>x\<leftarrow>a. x\<^sup>2) = (0::real)"
  by (induction a) simp_all

text \<open>
  C6, as the code has it. Under the goal \<open>[-\<pi>, 0, 0, 0]\<close> and the weights
  \<open>[1, 2, 0.1, 0.1]\<close>, a row whose observation is the goal has the error
  \<open>[0, 0, 0, 0]\<close>, the state cost 0 and the shaping term 0.02; under a positive success
  threshold it receives the bonus, and its reward is the claimed value minus the scaled
  action cost, hence the claimed value when the action is zero.
\<close>

theorem reward_at_goal:
  assumes ws: "well_shaped s"
    and g: "goal_state c = [- pi, 0, 0, 0]"
    and w: "reward_state_weights c = [1, 2, 1 / 10, 1 / 10]"
    and a: "length (actions s) = length (joint_pos s)"
    and sc: "length (stable_count s) = length (joint_pos s)"
    and i: "i < length (joint_pos s)"
    and at_goal: "row_obs c s i = goal_tensor c"
    and thr: "0 < success_threshold c"
  shows "\<exists>err state_cost reward s'.
       rewards_error c s = Inr err \<and> err ! i = [0, 0, 0, 0]
     \<and> einsum_bi_ij_bj err (torch_diag (reward_state_weights c)) = Inr state_cost
     \<and> state_cost ! i = 0
     \<and> torch_norm (err ! i) < success_threshold c
     \<and> (\<Sum>d\<leftarrow>map abs (take 2 (err ! i)). 1 - tanh d) * (1 / 100) = 2 / 100
     \<and> get_rewards c s = Inr (reward, s')
     \<and> reward ! i = - (reward_scale c * (reward_action_weight c * (\<Sum>x\<leftarrow>actions s ! i. x\<^sup>2)))
                     - time_penalty c + 2 / 100 + bonus_reward c
     \<and> (list_all (\<lambda>x. x = 0) (actions s ! i)
          \<longrightarrow> reward ! i = - time_penalty c + 2 / 100 + bonus_reward c)"
proof -
  let ?N = "length (joint_pos s)"
  let ?err = "map (row_error c s) [0..<?N]"
  let ?cost = "map (\<lambda>row. reward_state_weights c ! 0 * (row ! 0)\<^sup>2 + reward_state_weights c ! 1 * (row ! 1)\<^sup>2
                    + reward_state_weights c ! 2 * (row ! 2)\<^sup>2 + reward_state_weights c ! 3 * (row ! 3)\<^sup>2) ?err"
  let ?r = "map (\<lambda>i. reward_row c (row_error c s i) (actions s ! i)) [0..<?N]"
  let ?s' = "s\<lparr>stable_count := map (\<lambda>i. if torch_norm (row_error c s i) < success_threshold c
                       then stable_count s ! i + 1 else 0) [0..<?N]\<rparr>"
  have g4: "length (goal_state c) = 4" and w4: "length (reward_state_weights c) = 4"
    by (simp_all add: g w)
  have gt: "goal_tensor c = [- pi, 0, 0, 0]"
    by (simp add: goal_tensor_def g normalize_angle_minus_pi normalize_angle_0)
  have zero: "row_error c s i = [0, 0, 0, 0]"
    by (simp add: at_goal gt)
  have e: "rewards_error c s = Inr ?err"
    using ws g4 by (rule rewards_error_shaped)
  have ei: "?err ! i = [0, 0, 0, 0]"
    using i zero by simp
  have q: "einsum_bi_ij_bj ?err (torch_diag (reward_state_weights c)) = Inr ?cost"
    using w4 by (rule einsum_diag_4)
  have qi: "?cost ! i = 0"
    using i by (simp add: zero)
  have n: "torch_norm (?err ! i) < success_threshold c"
    unfolding ei torch_norm_zero by (rule thr)
  have sh: "(\<Sum>d\<leftarrow>map abs (take 2 (?err ! i)). 1 - tanh d) * (1 / 100) = 2 / 100"
    unfolding ei by simp
  have r: "get_rewards c s = Inr (?r, ?s')"
    using ws g4 w4 a sc by (rule get_rewards_shaped)
  have ri: "?r ! i = - (reward_scale c * (reward_action_weight c * (\<Sum>x\<leftarrow>actions s ! i. x\<^sup>2)))
                     - time_penalty c + 2 / 100 + bonus_reward c"
    using i thr by (simp add: zero reward_row_def base_reward_row_def torch_norm_zero)
  have rz: "list_all (\<lambda>x. x = 0) (actions s ! i)
          \<longrightarrow> ?r ! i = - time_penalty c + 2 / 100 + bonus_reward c"
    unfolding ri by (simp add: sum_list_squares_zero)
  from e ei q qi n sh r ri rz show ?thesis by blast
qed

theorem reward_at_goal_witness:
  "well_shaped env_at_goal \<and> goal_state DoublePendulumEnvCfg = [- pi, 0, 0, 0]
   \<and> reward_state_weights DoublePendulumEnvCfg = [1, 2, 1 / 10, 1 / 10]
   \<and> length (actions env_at_goal) = length (joint_pos env_at_goal)
   \<and> length (stable_count env_at_goal) = length (joint_pos env_at_goal)
   \<and> (0::nat) < length (joint_pos env_at_goal)
   \<and> row_obs DoublePendulumEnvCfg env_at_goal 0 = goal_tensor DoublePendulumEnvCfg
   \<and> 0 < success_threshold DoublePendulumEnvCfg
   \<and> (\<exists>reward s'. get_rewards DoublePendulumEnvCfg env_at_goal = Inr (reward, s')
         \<and> reward ! 0 = 2001 / 100)"
proof -
  have g: "goal_state DoublePendulumEnvCfg = [- pi, 0, 0, 0]"
    and w: "reward_state_weights DoublePendulumEnvCfg = [1, 2, 1 / 10, 1 / 10]"
    and thr: "0 < success_threshold DoublePendulumEnvCfg"
    by (simp_all add: DoublePendulumEnvCfg_def)
  have at_goal: "row_obs DoublePendulumEnvCfg env_at_goal 0 = goal_tensor DoublePendulumEnvCfg"
    by (simp add: row_obs_env_at_goal goal_tensor_default)
  note sh = shaped_env_at_goal(3,4,5)
  have z: "list_all (\<lambda>x. x = 0) (actions env_at_goal ! 0)"
    by (simp add: env_at_goal_def)
  from reward_at_goal [OF well_shaped_env_at_goal g w sh at_goal thr] z obtain reward s'
    where r: "get_rewards DoublePendulumEnvCfg env_at_goal = Inr (reward, s')"
      and v: "reward ! 0 = - time_penalty DoublePendulumEnvCfg + 2 / 100
                + bonus_reward DoublePendulumEnvCfg"
    by blast
  have "reward ! 0 = 2001 / 100"
    unfolding v by (simp add: DoublePendulumEnvCfg_def)
  with r well_shaped_env_at_goal g w sh at_goal thr show ?thesis by blast
qed

text \<open>
  C6 as stated fails on a row at the goal whose action is \<open>[2]\<close>: under the default
  configuration the reward is 19.61, where \<open>-time_penalty + 0.02 + bonus_reward\<close> is
  20.01. With a success threshold of 0 the row at the goal receives no bonus: its
  reward under a zero action is 0.01.
\<close>

theorem reward_at_goal_action_cost:
  "get_observations DoublePendulumEnvCfg (env_at_goal\<lparr>actions := [[2]]\<rparr>)
     = Inr [goal_tensor DoublePendulumEnvCfg]
   \<and> get_rewards DoublePendulumEnvCfg (env_at_goal\<lparr>actions := [[2]]\<rparr>)
     = Inr ([1961 / 100], env_at_goal\<lparr>actions := [[2]], stable_count := [4]\<rparr>)
   \<and> - time_penalty DoublePendulumEnvCfg + 2 / 100 + bonus_reward DoublePendulumEnvCfg
     = 2001 / 100
   \<and> get_rewards (DoublePendulumEnvCfg\<lparr>success_threshold := 0\<rparr>) env_at_goal
     = Inr ([1 / 100], env_at_goal\<lparr>stable_count := [0]\<rparr>)"
proof -
  let ?s = "env_at_goal\<lparr>actions := [[2]]\<rparr>"
  let ?c = "DoublePendulumEnvCfg\<lparr>success_threshold := 0\<rparr>"
  have ws: "well_shaped ?s" by (simp add: well_shaped_def env_at_goal_def)
  have ro: "row_obs c ?s 0 = [- pi, 0, 0, 0]" for c
    using row_obs_env_at_goal [of c] by (simp add: env_at_goal_def)
  have o: "get_observations DoublePendulumEnvCfg ?s = Inr [goal_tensor DoublePendulumEnvCfg]"
    using get_observations_shaped [OF ws, of DoublePendulumEnvCfg] ro
    by (simp add: env_at_goal_def goal_tensor_default)
  have r1: "get_rewards DoublePendulumEnvCfg ?s
     = Inr ([1961 / 100], env_at_goal\<lparr>actions := [[2]], stable_count := [4]\<rparr>)"
    using get_rewards_shaped [of ?s DoublePendulumEnvCfg, OF ws] ro [of DoublePendulumEnvCfg]
    by (simp add: env_at_goal_fields default_cfg_fields goal_tensor_default
        reward_row_def base_reward_row_def torch_norm_zero)
  have gt: "goal_tensor ?c = [- pi, 0, 0, 0]"
    by (simp add: goal_tensor_def default_cfg_fields normalize_angle_minus_pi normalize_angle_0)
  have r2: "get_rewards ?c env_at_goal = Inr ([1 / 100], env_at_goal\<lparr>stable_count := [0]\<rparr>)"
    using get_rewards_shaped [of env_at_goal ?c, OF well_shaped_env_at_goal] row_obs_env_at_goal [of ?c]
    by (simp add: env_at_goal_fields default_cfg_fields gt
        reward_row_def base_reward_row_def torch_norm_zero)
  have v: "- time_penalty DoublePendulumEnvCfg + 2 / 100 + bonus_reward DoublePendulumEnvCfg
     = 2001 / 100"
    by (simp add: DoublePendulumEnvCfg_def)
  from o r1 v r2 show ?thesis by simp
qed

section \<open>Determinism of the reward\<close>

text \<open>
  C9: the reward batch (or the exception) of \<^verbatim>\<open>_get_rewards\<close> is a function of the
  configuration, the observation batch, the action batch and the prior stable
  counters: two environments that agree on these receive the same rewards, whatever
  else differs between them (the raw joint angles behind equal observations, the
  default joint state, the joint indices). The function takes no random input.
\<close>

theorem rewards_deterministic:
  assumes "get_observations c s1 = get_observations c s2"
    and "actions s1 = actions s2"
    and "stable_count s1 = stable_count s2"
  shows "map_sum id fst (get_rewards c s1) = map_sum id fst (get_rewards c s2)"
  using assms
  by (simp add: get_rewards_def Let_def ebind_def split: sum.splits)

theorem rewards_deterministic_witness:
  "get_observations DoublePendulumEnvCfg env_at_goal
     = get_observations DoublePendulumEnvCfg
         (env_at_goal\<lparr>joint_pos := [[pi, 0]], default_joint_pos := [[1, 1]]\<rparr>)
   \<and> actions env_at_goal
     = actions (env_at_goal\<lparr>joint_pos := [[pi, 0]], default_joint_pos := [[1, 1]]\<rparr>)
   \<and> stable_count env_at_goal
     = stable_count (env_at_goal\<lparr>joint_pos := [[pi, 0]], default_joint_pos := [[1, 1]]\<rparr>)
   \<and> joint_pos env_at_goal
     \<noteq> joint_pos (env_at_goal\<lparr>joint_pos := [[pi, 0]], default_joint_pos := [[1, 1]]\<rparr>)
   \<and> map_sum id fst (get_rewards DoublePendulumEnvCfg env_at_goal) = Inr [2001 / 100]
   \<and> map_sum id fst (get_rewards DoublePendulumEnvCfg
         (env_at_goal\<lparr>joint_pos := [[pi, 0]], default_joint_pos := [[1, 1]]\<rparr>))
     = Inr [2001 / 100]"
proof -
  let ?s2 = "env_at_goal\<lparr>joint_pos := [[pi, 0]], default_joint_pos := [[1, 1]]\<rparr>"
  have ws2: "well_shaped ?s2" by (simp add: well_shaped_def env_at_goal_fields)
  have o1: "get_observations DoublePendulumEnvCfg env_at_goal = Inr [[- pi, 0, 0, 0]]"
    using get_observations_shaped [OF well_shaped_env_at_goal, of DoublePendulumEnvCfg]
      row_obs_env_at_goal
    by (simp add: env_at_goal_fields)
  have o2: "get_observations DoublePendulumEnvCfg ?s2 = Inr [[- pi, 0, 0, 0]]"
    using get_observations_shaped [OF ws2, of DoublePendulumEnvCfg]
    by (simp add: env_at_goal_fields obs_row_def normalize_angle_pi normalize_angle_0 clamp_def)
  have h1: "get_observations DoublePendulumEnvCfg env_at_goal
     = get_observations DoublePendulumEnvCfg ?s2"
    by (simp only: o1 o2)
  have h2: "actions env_at_goal = actions ?s2" by simp
  have h3: "stable_count env_at_goal = stable_count ?s2" by simp
  have d: "joint_pos env_at_goal \<noteq> joint_pos ?s2" by (simp add: env_at_goal_fields)
  have r1: "get_rewards DoublePendulumEnvCfg env_at_goal
     = Inr ([2001 / 100], env_at_goal\<lparr>stable_count := [4]\<rparr>)"
    using get_rewards_shaped [of env_at_goal DoublePendulumEnvCfg, OF well_shaped_env_at_goal]
      row_obs_env_at_goal [of DoublePendulumEnvCfg]
    by (simp add: env_at_goal_fields default_cfg_fields goal_tensor_default
        reward_row_def base_reward_row_def torch_norm_zero)
  have v1: "map_sum id fst (get_rewards DoublePendulumEnvCfg env_at_goal) = Inr [2001 / 100]"
    by (simp add: r1)
  with rewards_deterministic [OF h1 h2 h3]
  have v2: "map_sum id fst (get_rewards DoublePendulumEnvCfg ?s2) = Inr [2001 / 100]"
    by simp
  from h1 h2 h3 d v1 v2 show ?thesis by blast
qed

section \<open>Reset\<close>

lemma length_put_row [simp]: "length (put_row old v) = length old"
  by (simp add: put_row_def)

lemma put_row_same: "length v = length old \<Longrightarrow> put_row old v = v"
  by (simp add: put_row_def)

lemma map_length_update:
  assumes "length r = length (t ! i)"
  shows "map length (t[i := r]) = map length t"
proof (cases "i < length t")
  case True
  then show ?thesis
    using assms by (simp add: map_update list_update_same_conv)
next
  case False
  then show ?thesis by (simp add: list_update_beyond)
qed

lemma fold_put_widths:
  "map length (fold (\<lambda>k t. t[f k := put_row (t ! f k) (v k)]) ks t) = map length t"
  by (induction ks arbitrary: t) (simp_all add: map_length_update)

lemma fold_put_frame:
  "list_all (\<lambda>k. f k \<noteq> i) ks \<Longrightarrow>
   fold (\<lambda>k t. t[f k := put_row (t ! f k) (v k)]) ks t ! i = t ! i"
  by (induction ks arbitrary: t) simp_all

lemma fold_fill_length:
  "length (fold (\<lambda>j t. t[j := v]) ids t) = length t"
  by (induction ids arbitrary: t) auto

lemma fold_fill_frame:
  "i \<notin> set ids \<Longrightarrow> fold (\<lambda>j t. t[j := v]) ids t ! i = t ! i"
  by (induction ids arbitrary: t) auto

lemma fold_fill_hit:
  "i \<in> set ids \<Longrightarrow> i < length t \<Longrightarrow> fold (\<lambda>j t. t[j := v]) ids t ! i = v"
proof (induction ids arbitrary: t)
  case Nil
  then show ?case by simp
next
  case (Cons j ids)
  show ?case
  proof (cases "i \<in> set ids")
    case True
    with Cons show ?thesis by simp
  next
    case False
    with Cons.prems have "i = j" by simp
    with False Cons.prems show ?thesis by (simp add: fold_fill_frame)
  qed
qed

lemma index_put_frame:
  assumes "index_put t ids vals = Inr t'"
  shows "map length t' = map length t" and "i \<notin> set ids \<Longrightarrow> t' ! i = t ! i"
proof -
  from assms have t': "t' = fold (\<lambda>k t. t[ids ! k :=
        put_row (t ! (ids ! k)) (if length vals = 1 then vals ! 0 else vals ! k)])
      [0..<length ids] t"
    by (auto simp: index_put_def split: if_splits)
  show "map length t' = map length t"
    unfolding t' by (rule fold_put_widths)
  assume "i \<notin> set ids"
  then have "list_all (\<lambda>k. ids ! k \<noteq> i) [0..<length ids]"
    by (auto simp: list_all_iff)
  then show "t' ! i = t ! i"
    unfolding t' by (rule fold_put_frame)
qed

lemma index_put_length:
  "index_put t ids vals = Inr t' \<Longrightarrow> length t' = length t"
  using index_put_frame(1) [of t ids vals t'] by (metis length_map)

lemma index_put_returns:
  assumes "list_all (\<lambda>i. i < length t) ids" and "length vals = length ids"
    and "list_all (\<lambda>v. length v = J) vals" and "list_all (\<lambda>row. length row = J) t"
  shows "\<exists>t'. index_put t ids vals = Inr t' \<and> list_all (\<lambda>row. length row = J) t'"
proof -
  have w: "list_all (\<lambda>v. list_all (\<lambda>row. length v = length row \<or> length v = 1) t) vals"
    using assms(3,4) by (auto simp: list_all_iff)
  from assms(1,2) w obtain t' where t': "index_put t ids vals = Inr t'"
    by (simp add: index_put_def)
  have "map length t' = map length t" using t' by (rule index_put_frame(1))
  moreover have "list_all (\<lambda>n. n = J) (map length t)"
    using assms(4) by (simp add: list_all_iff)
  ultimately have "list_all (\<lambda>n. n = J) (map length t')" by simp
  then have "list_all (\<lambda>row. length row = J) t'" by (simp add: list_all_iff)
  with t' show ?thesis by blast
qed

lemma index_fill_frame:
  assumes "index_fill t ids v = Inr t'"
  shows "length t' = length t" and "i \<notin> set ids \<Longrightarrow> t' ! i = t ! i"
    and "i \<in> set ids \<Longrightarrow> t' ! i = v"
proof -
  from assms have t': "t' = fold (\<lambda>j t. t[j := v]) ids t"
    and r: "list_all (\<lambda>i. i < length t) ids"
    by (auto simp: index_fill_def split: if_splits)
  show "length t' = length t" by (simp add: t' fold_fill_length)
  show "i \<notin> set ids \<Longrightarrow> t' ! i = t ! i" by (simp add: t' fold_fill_frame)
  assume "i \<in> set ids"
  moreover from this r have "i < length t" by (simp add: list_all_iff)
  ultimately show "t' ! i = v" by (simp add: t' fold_fill_hit)
qed

lemma index_fill_returns:
  "list_all (\<lambda>i. i < length t) ids \<Longrightarrow> \<exists>t'. index_fill t ids v = Inr t'"
  by (simp add: index_fill_def)

text \<open>
  The reset returns on a batch of matching shapes and row indices below \<open>N\<close>.
\<close>

lemma reset_idx_returns:
  assumes b: "batch_shaped s"
    and r: "list_all (\<lambda>i. i < length (joint_pos s)) env_ids"
    and r1: "2 \<le> length (initial_shoulder_angle_range c)"
    and r2: "2 \<le> length (initial_elbow_angle_range c)"
  shows "\<exists>s'. reset_idx c shoulder_sample elbow_sample (Some env_ids) s = Inr s'"
proof -
  let ?J = "num_joints s"
  let ?p0 = "map (\<lambda>i. default_joint_pos s ! i) env_ids"
  let ?p1 = "map (\<lambda>k. (?p0 ! k)[shoulder_dof_idx s := ?p0 ! k ! shoulder_dof_idx s + shoulder_sample k])
               [0..<length ?p0]"
  let ?p2 = "map (\<lambda>k. (?p1 ! k)[elbow_dof_idx s := ?p1 ! k ! elbow_dof_idx s + elbow_sample k])
               [0..<length ?p1]"
  let ?v0 = "map (\<lambda>i. default_joint_vel s ! i) env_ids"
  from b have len: "length (joint_vel s) = length (joint_pos s)"
      "length (stable_count s) = length (joint_pos s)"
      "length (default_joint_pos s) = length (joint_pos s)"
      "length (default_joint_vel s) = length (joint_pos s)"
    and wp: "list_all (\<lambda>row. length row = ?J) (joint_pos s)"
    and wv: "list_all (\<lambda>row. length row = ?J) (joint_vel s)"
    and wdp: "list_all (\<lambda>row. length row = ?J) (default_joint_pos s)"
    and wdv: "list_all (\<lambda>row. length row = ?J) (default_joint_vel s)"
    and idx: "shoulder_dof_idx s < ?J" "elbow_dof_idx s < ?J"
    by (simp_all add: batch_shaped_def)
  have s0: "index_select (default_joint_pos s) env_ids = Inr ?p0"
    using r by (simp add: index_select_def len)
  have w0: "list_all (\<lambda>row. length row = ?J) ?p0"
    using wdp r by (auto simp: list_all_iff len)
  have c0: "list_all (\<lambda>row. shoulder_dof_idx s < length row) ?p0"
    using w0 idx by (auto simp: list_all_iff)
  have a1: "add_to_column ?p0 (shoulder_dof_idx s) shoulder_sample = Inr ?p1"
    using c0 by (simp add: add_to_column_def)
  have w1: "list_all (\<lambda>row. length row = ?J) ?p1"
    using w0 by (auto simp: list_all_iff)
  have c1: "list_all (\<lambda>row. elbow_dof_idx s < length row) ?p1"
    using w1 idx by (auto simp: list_all_iff)
  have a2: "add_to_column ?p1 (elbow_dof_idx s) elbow_sample = Inr ?p2"
    using c1 by (simp add: add_to_column_def)
  have w2: "list_all (\<lambda>row. length row = ?J) ?p2"
    using w1 by (auto simp: list_all_iff)
  have s1: "index_select (default_joint_vel s) env_ids = Inr ?v0"
    using r by (simp add: index_select_def len)
  have wv0: "list_all (\<lambda>row. length row = ?J) ?v0"
    using wdv r by (auto simp: list_all_iff len)
  have l2: "length ?p2 = length env_ids" and lv: "length ?v0 = length env_ids"
    by simp_all
  have rv: "list_all (\<lambda>i. i < length (joint_vel s)) env_ids"
    using r by (simp add: len)
  from index_put_returns [OF r l2 w2 wp] obtain P
    where P: "index_put (joint_pos s) env_ids ?p2 = Inr P"
      and wP: "list_all (\<lambda>row. length row = ?J) P" by blast
  from index_put_returns [OF rv lv wv0 wv] obtain V
    where V: "index_put (joint_vel s) env_ids ?v0 = Inr V"
      and wV: "list_all (\<lambda>row. length row = ?J) V" by blast
  have rP: "list_all (\<lambda>i. i < length P) env_ids"
    using r index_put_length [OF P] by simp
  have rV: "list_all (\<lambda>i. i < length V) env_ids"
    using rv index_put_length [OF V] by simp
  from index_put_returns [OF rP l2 w2 wP] obtain P'
    where P': "index_put P env_ids ?p2 = Inr P'" by blast
  from index_put_returns [OF rV lv wv0 wV] obtain V'
    where V': "index_put V env_ids ?v0 = Inr V'" by blast
  obtain C where C: "index_fill (stable_count s) env_ids 0 = Inr C"
    using index_fill_returns [of "stable_count s" env_ids 0] r by (auto simp: len)
  have "reset_idx c shoulder_sample elbow_sample (Some env_ids) s
      = Inr (s\<lparr>joint_pos := P', joint_vel := V', stable_count := C\<rparr>)"
    using r1 r2
    by (simp add: reset_idx_def s0 a1 a2 s1 P V write_joint_state_to_sim_def P' V' C
        del: length_map map_map)
  then show ?thesis ..
qed

text \<open>What a reset that returns has done, row by row.\<close>

lemma reset_idx_rows:
  assumes "reset_idx c shoulder_sample elbow_sample (Some env_ids) s = Inr s'"
  shows "length (joint_pos s') = length (joint_pos s)"
    and "length (joint_vel s') = length (joint_vel s)"
    and "length (stable_count s') = length (stable_count s)"
    and "i \<notin> set env_ids \<Longrightarrow> joint_pos s' ! i = joint_pos s ! i"
    and "i \<notin> set env_ids \<Longrightarrow> joint_vel s' ! i = joint_vel s ! i"
    and "i \<notin> set env_ids \<Longrightarrow> stable_count s' ! i = stable_count s ! i"
    and "i \<in> set env_ids \<Longrightarrow> stable_count s' ! i = 0"
proof -
  from assms obtain p2 v0 P V P' V' C
    where P: "index_put (joint_pos s) env_ids p2 = Inr P"
      and V: "index_put (joint_vel s) env_ids v0 = Inr V"
      and P': "index_put P env_ids p2 = Inr P'"
      and V': "index_put V env_ids v0 = Inr V'"
      and C: "index_fill (stable_count s) env_ids 0 = Inr C"
      and s': "s' = s\<lparr>joint_pos := P', joint_vel := V', stable_count := C\<rparr>"
    by (auto simp: reset_idx_def write_joint_state_to_sim_def ebind_eq_Inr split: if_splits)
  show "length (joint_pos s') = length (joint_pos s)"
    using index_put_length [OF P] index_put_length [OF P'] by (simp add: s')
  show "length (joint_vel s') = length (joint_vel s)"
    using index_put_length [OF V] index_put_length [OF V'] by (simp add: s')
  show "length (stable_count s') = length (stable_count s)"
    using index_fill_frame(1) [OF C] by (simp add: s')
  show "i \<in> set env_ids \<Longrightarrow> stable_count s' ! i = 0"
    using index_fill_frame(3) [OF C] by (simp add: s')
  assume i: "i \<notin> set env_ids"
  show "joint_pos s' ! i = joint_pos s ! i"
    using index_put_frame(2) [OF P i] index_put_frame(2) [OF P' i] by (simp add: s')
  show "joint_vel s' ! i = joint_vel s ! i"
    using index_put_frame(2) [OF V i] index_put_frame(2) [OF V' i] by (simp add: s')
  show "stable_count s' ! i = stable_count s ! i"
    using index_fill_frame(2) [OF C i] by (simp add: s')
qed

text \<open>
  Default joint positions of another width than the joint positions cannot be
  assigned: the reset raises.
\<close>

lemma reset_idx_width_mismatch:
  "reset_idx DoublePendulumEnvCfg (\<lambda>k. 1 / 2) (\<lambda>k. - 1 / 4) (Some [0])
     (env3\<lparr>default_joint_pos := [[0, 0, 0], [0, 0, 0], [0, 0, 0]]\<rparr>) = Inl ShapeError"
  by (simp add: reset_idx_def index_select_def add_to_column_def index_put_def env3_def
      DoublePendulumEnvCfg_def)

text \<open>
  C5: a reset of the rows \<open>env_ids\<close>, all below \<open>N\<close>, returns an environment with the
  same number of rows in which every row outside \<open>env_ids\<close> has the joint positions,
  joint velocities and stable counter it had before.
\<close>

theorem reset_idx_frame:
  assumes "batch_shaped s"
    and "list_all (\<lambda>i. i < length (joint_pos s)) env_ids"
    and "2 \<le> length (initial_shoulder_angle_range c)"
    and "2 \<le> length (initial_elbow_angle_range c)"
    and "i \<notin> set env_ids"
  shows "\<exists>s'. reset_idx c shoulder_sample elbow_sample (Some env_ids) s = Inr s'
     \<and> length (joint_pos s') = length (joint_pos s)
     \<and> length (joint_vel s') = length (joint_vel s)
     \<and> length (stable_count s') = length (stable_count s)
     \<and> joint_pos s' ! i = joint_pos s ! i
     \<and> joint_vel s' ! i = joint_vel s ! i
     \<and> stable_count s' ! i = stable_count s ! i"
proof -
  from reset_idx_returns [OF assms(1-4)] obtain s'
    where r: "reset_idx c shoulder_sample elbow_sample (Some env_ids) s = Inr s'" ..
  from reset_idx_rows(1-6) [OF r] assms(5) r show ?thesis by blast
qed

text \<open>
  A reset of rows 0 and 2 of the three-row environment: row 1 keeps its joint state and
  its counter 5, while the reset rows receive the sampled positions, the default
  velocities and the counter 0.
\<close>

theorem reset_idx_frame_witness:
  "batch_shaped env3 \<and> list_all (\<lambda>i. i < length (joint_pos env3)) [0, 2]
   \<and> 2 \<le> length (initial_shoulder_angle_range DoublePendulumEnvCfg)
   \<and> 2 \<le> length (initial_elbow_angle_range DoublePendulumEnvCfg)
   \<and> (1::nat) \<notin> set [0, 2]
   \<and> (\<exists>s'. reset_idx DoublePendulumEnvCfg (\<lambda>k. 1 / 2) (\<lambda>k. - 1 / 4) (Some [0, 2]) env3 = Inr s'
        \<and> joint_pos s' ! 1 = [1, 2] \<and> joint_vel s' ! 1 = [7, - 9] \<and> stable_count s' ! 1 = 5
        \<and> length (joint_pos s') = 3
        \<and> s' = env3\<lparr>joint_pos := [[1 / 2, - 1 / 4], [1, 2], [1 / 2, - 1 / 4]],
                      joint_vel := [[0, 0], [7, - 9], [0, 0]],
                      stable_count := [0, 5, 0]\<rparr>)"
proof -
  have h1: "batch_shaped env3" by (simp add: batch_shaped_def num_joints_def env3_def)
  have h2: "list_all (\<lambda>i. i < length (joint_pos env3)) [0, 2]" by (simp add: env3_def)
  have h3: "2 \<le> length (initial_shoulder_angle_range DoublePendulumEnvCfg)"
    and h4: "2 \<le> length (initial_elbow_angle_range DoublePendulumEnvCfg)"
    by (simp_all add: DoublePendulumEnvCfg_def)
  have h5: "(1::nat) \<notin> set [0, 2]" by simp
  from reset_idx_frame [OF h1 h2 h3 h4 h5, of "\<lambda>k. 1 / 2" "\<lambda>k. - 1 / 4"] obtain s'
    where r: "reset_idx DoublePendulumEnvCfg (\<lambda>k. 1 / 2) (\<lambda>k. - 1 / 4) (Some [0, 2]) env3 = Inr s'"
      and l: "length (joint_pos s') = length (joint_pos env3)"
      and p: "joint_pos s' ! 1 = joint_pos env3 ! 1"
      and v: "joint_vel s' ! 1 = joint_vel env3 ! 1"
      and n: "stable_count s' ! 1 = stable_count env3 ! 1"
    by blast
  have f: "joint_pos s' ! 1 = [1, 2]" "joint_vel s' ! 1 = [7, - 9]" "stable_count s' ! 1 = 5"
    "length (joint_pos s') = 3"
    unfolding p v n l by (simp_all add: env3_def)
  have e: "reset_idx DoublePendulumEnvCfg (\<lambda>k. 1 / 2) (\<lambda>k. - 1 / 4) (Some [0, 2]) env3
      = Inr (env3\<lparr>joint_pos := [[1 / 2, - 1 / 4], [1, 2], [1 / 2, - 1 / 4]],
                      joint_vel := [[0, 0], [7, - 9], [0, 0]],
                      stable_count := [0, 5, 0]\<rparr>)"
    by (simp add: reset_idx_def write_joint_state_to_sim_def index_select_def add_to_column_def
        index_put_def index_fill_def put_row_def env3_def DoublePendulumEnvCfg_def upt_rec)
  with r have "s' = env3\<lparr>joint_pos := [[1 / 2, - 1 / 4], [1, 2], [1 / 2, - 1 / 4]],
                      joint_vel := [[0, 0], [7, - 9], [0, 0]],
                      stable_count := [0, 5, 0]\<rparr>"
    by simp
  with r f h1 h2 h3 h4 h5 show ?thesis by blast
qed

section \<open>Actions\<close>

lemma upt_2: "[0..<2] = [0, Suc 0]"
  by (simp add: upt_rec)

lemma set_joint_effort_target_one_joint:
  assumes cols: "list_all (\<lambda>row. length row = 2) buf" and j: "j < 2"
    and n: "length target = length buf" and ne: "buf \<noteq> []"
    and k: "list_all (\<lambda>row. length row = k) target"
  shows "set_joint_effort_target target (Some [j]) buf = Inl ShapeError \<longleftrightarrow> k \<noteq> 1"
proof -
  have i: "list_all (\<lambda>row. j < length row) buf"
    using cols j by (auto simp: list_all_iff)
  from n ne obtain t ts where t: "target = t # ts" by (cases target) auto
  have s: "list_all (\<lambda>row. length row = Suc 0) target \<longleftrightarrow> k = Suc 0"
    using k by (auto simp: list_all_iff t)
  show ?thesis by (simp add: set_joint_effort_target_def Let_def i s n)
qed

lemma set_joint_effort_target_all_joints:
  assumes cols: "list_all (\<lambda>row. length row = 2) buf"
    and n: "length target = length buf" and ne: "buf \<noteq> []"
    and k: "list_all (\<lambda>row. length row = k) target"
  shows "set_joint_effort_target target None buf = Inl ShapeError \<longleftrightarrow> k \<noteq> 1 \<and> k \<noteq> 2"
proof -
  from ne cols have h: "length (hd buf) = 2" by (cases buf) simp_all
  have i: "list_all (\<lambda>row. list_all (\<lambda>j. j < length row) [0..<2]) buf"
    using cols by (auto simp: list_all_iff)
  from n ne obtain t ts where t: "target = t # ts" by (cases target) auto
  have s: "list_all (\<lambda>row. length row = length [0..<2] \<or> length row = 1) target
      \<longleftrightarrow> k = 2 \<or> k = 1"
    using k by (auto simp: list_all_iff t)
  show ?thesis using i s by (auto simp: set_joint_effort_target_def Let_def ne h n)
qed

lemma set_joint_effort_target_broadcast:
  assumes cols: "list_all (\<lambda>row. length row = 2) buf"
    and n: "length target = length buf" and ne: "buf \<noteq> []"
    and k: "list_all (\<lambda>row. length row = 1) target"
  shows "set_joint_effort_target target None buf = Inr (map (\<lambda>t. [t ! 0, t ! 0]) target)"
proof -
  from ne cols have h: "length (hd buf) = 2" by (cases buf) simp_all
  have i: "list_all (\<lambda>row. list_all (\<lambda>j. j < length row) [0..<2]) buf"
    using cols by (auto simp: list_all_iff)
  have s: "list_all (\<lambda>row. length row = length [0..<2] \<or> length row = 1) target"
    using k by (auto simp: list_all_iff)
  have row: "r[0 := x, Suc 0 := y] = [x, y]" if "length r = 2" for r :: vec and x y
  proof -
    from that obtain u v where "r = [u, v]"
      by (auto simp: length_Suc_conv numeral_eq_Suc)
    then show ?thesis by simp
  qed
  have "map (\<lambda>b. let trow = (if length target = 1 then target ! 0 else target ! b)
                  in fold (\<lambda>m r. r[[0..<2] ! m := (if length trow = 1 then trow ! 0 else trow ! m)])
                       [0..<2] (buf ! b)) [0..<length buf]
        = map (\<lambda>t. [t ! 0, t ! 0]) target"
  proof (rule nth_equalityI)
    show "length (map (\<lambda>b. let trow = (if length target = 1 then target ! 0 else target ! b)
                  in fold (\<lambda>m r. r[[0..<2] ! m := (if length trow = 1 then trow ! 0 else trow ! m)])
                       [0..<2] (buf ! b)) [0..<length buf])
        = length (map (\<lambda>t. [t ! 0, t ! 0]) target)"
      by (simp add: n)
  next
    fix b
    assume "b < length (map (\<lambda>b. let trow = (if length target = 1 then target ! 0 else target ! b)
                  in fold (\<lambda>m r. r[[0..<2] ! m := (if length trow = 1 then trow ! 0 else trow ! m)])
                       [0..<2] (buf ! b)) [0..<length buf])"
    then have b: "b < length buf" by simp
    then have lb: "length (buf ! b) = 2" using cols by (simp add: list_all_length)
    have tb: "(if length target = 1 then target ! 0 else target ! b) = target ! b"
      "(if length buf = 1 then target ! 0 else target ! b) = target ! b"
      using b n by auto
    have l1: "length (target ! b) = 1" using k b n by (simp add: list_all_length)
    have f: "fold (\<lambda>m r. r[[0..<2] ! m := target ! b ! 0]) [0..<2] (buf ! b)
        = [target ! b ! 0, target ! b ! 0]"
      by (simp add: upt_2 row [OF lb])
    show "map (\<lambda>b. let trow = (if length target = 1 then target ! 0 else target ! b)
                  in fold (\<lambda>m r. r[[0..<2] ! m := (if length trow = 1 then trow ! 0 else trow ! m)])
                       [0..<2] (buf ! b)) [0..<length buf] ! b
        = map (\<lambda>t. [t ! 0, t ! 0]) target ! b"
      using b n by (simp only: nth_map length_map length_upt diff_zero nth_upt add_0 Let_def tb l1 simp_thms if_True f)
  qed
  then show ?thesis
    using i s by (simp add: set_joint_effort_target_def ne h n)
qed

lemma scaled_rows:
  "list_all (\<lambda>row. length row = k) acts \<Longrightarrow>
   list_all (\<lambda>row. length row = k) (map (map f) acts)"
  by (simp add: list_all_iff)

text \<open>
  C8, as the code has it. The environment checks no width: \<^verbatim>\<open>_apply_action\<close> scales
  the batch and hands it to the framework's setter for the joints of the mode. On a
  batch of width \<open>k\<close> the setter's assignment raises exactly when \<open>k\<close> is neither 1 nor
  the number of joints addressed: in the two single-joint modes when \<open>k \<noteq> 1\<close>, in the
  dual mode when \<open>k\<close> is neither 1 nor 2. In the dual mode a batch of width 1 is
  broadcast: both joints of a row receive the row's one scaled action. Under any other
  \<^verbatim>\<open>robot_type\<close> nothing is applied.
\<close>

theorem apply_action_width:
  assumes "list_all (\<lambda>row. length row = k) (actions s)"
    and "length (actions s) = length joint_effort_target"
    and "joint_effort_target \<noteq> []"
    and "list_all (\<lambda>row. length row = 2) joint_effort_target"
    and "shoulder_dof_idx s < 2" and "elbow_dof_idx s < 2"
  shows "(robot_type c = ''acrobot'' \<or> robot_type c = ''pendubot''
            \<longrightarrow> (apply_action c s joint_effort_target = Inl ShapeError \<longleftrightarrow> k \<noteq> 1))
     \<and> (robot_type c = ''double_pendulum''
            \<longrightarrow> (apply_action c s joint_effort_target = Inl ShapeError \<longleftrightarrow> k \<noteq> 1 \<and> k \<noteq> 2))
     \<and> (robot_type c = ''double_pendulum'' \<and> k = 1
            \<longrightarrow> apply_action c s joint_effort_target
                = Inr (map (\<lambda>a. [a ! 0 * torque_scale c, a ! 0 * torque_scale c]) (actions s)))
     \<and> (robot_type c \<noteq> ''acrobot'' \<and> robot_type c \<noteq> ''pendubot''
          \<and> robot_type c \<noteq> ''double_pendulum''
            \<longrightarrow> apply_action c s joint_effort_target = Inr joint_effort_target)"
proof -
  let ?torque = "map (map (\<lambda>a. a * torque_scale c)) (actions s)"
  have k: "list_all (\<lambda>row. length row = k) ?torque"
    using assms(1) by (rule scaled_rows)
  have n: "length ?torque = length joint_effort_target"
    using assms(2) by simp
  note one = set_joint_effort_target_one_joint [OF assms(4) _ n assms(3) k]
  note all = set_joint_effort_target_all_joints [OF assms(4) n assms(3) k]
  have a: "robot_type c = ''acrobot'' \<or> robot_type c = ''pendubot''
            \<longrightarrow> (apply_action c s joint_effort_target = Inl ShapeError \<longleftrightarrow> k \<noteq> 1)"
    using one [OF assms(5)] one [OF assms(6)] by (auto simp: apply_action_def)
  have b: "robot_type c = ''double_pendulum''
            \<longrightarrow> (apply_action c s joint_effort_target = Inl ShapeError \<longleftrightarrow> k \<noteq> 1 \<and> k \<noteq> 2)"
    using all by (simp add: apply_action_def)
  have d: "robot_type c = ''double_pendulum'' \<and> k = 1
            \<longrightarrow> apply_action c s joint_effort_target
                = Inr (map (\<lambda>a. [a ! 0 * torque_scale c, a ! 0 * torque_scale c]) (actions s))"
  proof (intro impI, elim conjE)
    assume rt: "robot_type c = ''double_pendulum''" and k1: "k = 1"
    have l: "\<And>a. a \<in> set (actions s) \<Longrightarrow> length a = 1"
      using assms(1) k1 by (simp add: list_all_iff)
    have "set_joint_effort_target ?torque None joint_effort_target
        = Inr (map (\<lambda>t. [t ! 0, t ! 0]) ?torque)"
      using k k1 by (intro set_joint_effort_target_broadcast [OF assms(4) n assms(3)]) simp
    moreover have "map (\<lambda>t. [t ! 0, t ! 0]) ?torque
        = map (\<lambda>a. [a ! 0 * torque_scale c, a ! 0 * torque_scale c]) (actions s)"
      using l by (simp add: comp_def)
    ultimately show "apply_action c s joint_effort_target
        = Inr (map (\<lambda>a. [a ! 0 * torque_scale c, a ! 0 * torque_scale c]) (actions s))"
      by (simp add: apply_action_def rt)
  qed
  have e: "robot_type c \<noteq> ''acrobot'' \<and> robot_type c \<noteq> ''pendubot''
          \<and> robot_type c \<noteq> ''double_pendulum''
            \<longrightarrow> apply_action c s joint_effort_target = Inr joint_effort_target"
    by (simp add: apply_action_def)
  from a b d e show ?thesis by blast
qed

theorem apply_action_width_witness:
  "list_all (\<lambda>row. length row = 2) (actions (env_at_goal\<lparr>actions := [[1, 2]]\<rparr>))
   \<and> length (actions (env_at_goal\<lparr>actions := [[1, 2]]\<rparr>)) = length [[0, 0 :: real]]
   \<and> [[0, 0 :: real]] \<noteq> []
   \<and> list_all (\<lambda>row. length row = 2) [[0, 0 :: real]]
   \<and> shoulder_dof_idx (env_at_goal\<lparr>actions := [[1, 2]]\<rparr>) < 2
   \<and> elbow_dof_idx (env_at_goal\<lparr>actions := [[1, 2]]\<rparr>) < 2
   \<and> robot_type DoublePendulumEnvCfg = ''acrobot''
   \<and> apply_action DoublePendulumEnvCfg (env_at_goal\<lparr>actions := [[1, 2]]\<rparr>) [[0, 0]]
       = Inl ShapeError"
proof -
  let ?s = "env_at_goal\<lparr>actions := [[1, 2]]\<rparr>"
  have h1: "list_all (\<lambda>row. length row = 2) (actions ?s)" by simp
  have h2: "length (actions ?s) = length [[0, 0 :: real]]" by simp
  have h3: "[[0, 0 :: real]] \<noteq> []" by simp
  have h4: "list_all (\<lambda>row. length row = 2) [[0, 0 :: real]]" by simp
  have h5: "shoulder_dof_idx ?s < 2" and h6: "elbow_dof_idx ?s < 2"
    by (simp_all add: env_at_goal_fields)
  have rt: "robot_type DoublePendulumEnvCfg = ''acrobot''" by (rule default_cfg_fields)
  from apply_action_width [OF h1 h2 h3 h4 h5 h6, of DoublePendulumEnvCfg] rt
  have "apply_action DoublePendulumEnvCfg ?s [[0, 0]] = Inl ShapeError" by simp
  with h1 h2 h3 h4 h5 h6 rt show ?thesis by blast
qed

text \<open>
  C8 as stated fails in the dual mode. Setting \<^verbatim>\<open>robot_type\<close> to
  \<^verbatim>\<open>"double_pendulum"\<close> leaves \<^verbatim>\<open>action_spaces\<close> at 1, no error is raised, and the
  action batch \<open>[[0.5]]\<close> of width 1 puts the torque 5 on both joints.
\<close>

theorem apply_action_broadcasts:
  "action_spaces (DoublePendulumEnvCfg\<lparr>robot_type := ''double_pendulum''\<rparr>) = 1
   \<and> apply_action (DoublePendulumEnvCfg\<lparr>robot_type := ''double_pendulum''\<rparr>)
        (env_at_goal\<lparr>actions := [[1 / 2]]\<rparr>) [[0, 0]] = Inr [[5, 5]]"
  by (simp add: apply_action_def set_joint_effort_target_def default_cfg_fields upt_2)

end
